theory Spec2Isabelle
  imports Complex_Main
begin

section \<open>JavaScript string primitives used by the tracking engine\<close>

text \<open>
  A JavaScript string is modelled as a \<^typ>\<open>string\<close>: one \<^typ>\<open>char\<close> per code unit,
  so \<open>length\<close> is the source's \<open>.length\<close>. Case folding and white space are the
  ASCII parts of \<open>toLowerCase\<close> and \<open>trim\<close>.
\<close>

definition to_lower_char :: "char \<Rightarrow> char" where
  "to_lower_char c =
     (case map_of (zip ''ABCDEFGHIJKLMNOPQRSTUVWXYZ'' ''abcdefghijklmnopqrstuvwxyz'') c of
        Some d \<Rightarrow> d
      | None \<Rightarrow> c)"

definition toLowerCase :: "string \<Rightarrow> string" where
  "toLowerCase s = map to_lower_char s"

definition is_space :: "char \<Rightarrow> bool" where
  "is_space c = (c \<in> set [CHR '' '', CHR 0x09, CHR 0x0A, CHR 0x0B, CHR 0x0C, CHR 0x0D])"

definition trim :: "string \<Rightarrow> string" where
  "trim s = rev (dropWhile is_space (rev (dropWhile is_space s)))"

fun startsWith :: "string \<Rightarrow> string \<Rightarrow> bool" where
  "startsWith s [] = True"
| "startsWith [] (p # ps) = False"
| "startsWith (c # cs) (p # ps) = (c = p \<and> startsWith cs ps)"

definition endsWith :: "string \<Rightarrow> string \<Rightarrow> bool" where
  "endsWith s suffix = startsWith (rev s) (rev suffix)"

text \<open>\<open>s.includes(sub)\<close>: \<open>sub\<close> occurs in \<open>s\<close> as a contiguous substring.\<close>

fun str_includes :: "string \<Rightarrow> string \<Rightarrow> bool" where
  "str_includes [] sub = (sub = [])"
| "str_includes (c # cs) sub = (startsWith (c # cs) sub \<or> str_includes cs sub)"

text \<open>\<open>parts.join(sep)\<close>.\<close>

fun join :: "string \<Rightarrow> string list \<Rightarrow> string" where
  "join sep [] = []"
| "join sep [p] = p"
| "join sep (p # q # ps) = p @ sep @ join sep (q # ps)"

text \<open>
  \<open>s.split(/[...]+/)\<close> for a character class: the pieces between maximal runs of
  separator characters. The flag says whether the previous character was a separator;
  the second argument is the current piece, reversed. As in JavaScript, a separator at
  the start or the end of the text gives an empty piece there, and the empty text gives
  one empty piece.
\<close>

fun split_run :: "(char \<Rightarrow> bool) \<Rightarrow> bool \<Rightarrow> string \<Rightarrow> string \<Rightarrow> string list" where
  "split_run sep insep cur [] = [rev cur]"
| "split_run sep insep cur (c # cs) =
     (if sep c then (if insep then split_run sep True cur cs
                     else rev cur # split_run sep True [] cs)
      else split_run sep False (c # cur) cs)"

definition split_class :: "(char \<Rightarrow> bool) \<Rightarrow> string \<Rightarrow> string list" where
  "split_class sep s = split_run sep False [] s"

text \<open>\<open>s.lastIndexOf(c)\<close>: the greatest index holding \<open>c\<close>, or \<open>-1\<close>.\<close>

fun lastIndexOf :: "string \<Rightarrow> char \<Rightarrow> int" where
  "lastIndexOf [] c = -1"
| "lastIndexOf (x # xs) c =
     (let r = lastIndexOf xs c in
      if r \<noteq> -1 then r + 1 else if x = c then 0 else -1)"

text \<open>\<open>s.substring(0, n)\<close> for an integer \<open>n\<close>; a negative \<open>n\<close> counts as 0.\<close>

definition substring0 :: "string \<Rightarrow> int \<Rightarrow> string" where
  "substring0 s n = take (nat n) s"

text \<open>\<open>n.toString()\<close> for an integer.\<close>

definition digit_char :: "nat \<Rightarrow> char" where
  "digit_char n = ''0123456789'' ! (n mod 10)"

function nat_to_string :: "nat \<Rightarrow> string" where
  "nat_to_string n =
     (if n < 10 then [digit_char n] else nat_to_string (n div 10) @ [digit_char n])"
  by pat_completeness auto
termination
  by (relation "measure id") auto

declare nat_to_string.simps [simp del]

definition int_to_string :: "int \<Rightarrow> string" where
  "int_to_string i = (if i < 0 then CHR ''-'' # nat_to_string (nat (- i)) else nat_to_string (nat i))"

section \<open>Types of the tracker (\<open>types/index.ts\<close>)\<close>

datatype AIPlatform =
  GOOGLE_AI_OVERVIEW | GEMINI | CHATGPT | PERPLEXITY | COPILOT | CLAUDE | GROK | DEEPSEEK

datatype Sentiment = Positive | Neutral | Negative

record AICitation =
  url :: string
  title :: "string option"
  snippet :: "string option"
  position :: int
  domain :: string
  is_you :: bool

record AIPlatformResponse =
  resp_platform :: AIPlatform
  query :: string
  response_text :: string
  citations :: "AICitation list"
  response_time_ms :: int
  resp_error :: "string option"

section \<open>Sentiment, confidence and summary (\<open>services/trackingEngine.ts\<close>)\<close>

subsection \<open>\<open>calculateConfidence\<close>\<close>

text \<open>
  The score is a JavaScript number; the model computes with exact rationals, so \<open>0.5\<close>,
  \<open>0.1\<close> and \<open>0.2\<close> are the decimal fractions the source writes.
\<close>

definition calculateConfidence :: "AIPlatformResponse \<Rightarrow> rat" where
  "calculateConfidence response =
     (let score = 1/2;
          score = (if length (citations response) \<ge> 5 then score + 2/10
                   else if length (citations response) \<ge> 3 then score + 1/10
                   else score);
          score = (if response_time_ms response < 3000 then score + 1/10 else score);
          score = (if length (response_text response) > 500 then score + 1/10 else score)
      in min 1 (max 0 score))"

subsection \<open>\<open>generateSummary\<close>\<close>

text \<open>
  The test \<open>lastSentence > maxLength * 0.7\<close> is written without fractions as
  \<open>10 * lastSentence > 7 * maxLength\<close>; for the only length the engine uses, 500, the bound
  is 350.
\<close>

definition generateSummary :: "string \<Rightarrow> int \<Rightarrow> string" where
  "generateSummary text maxLength =
     (if int (length text) \<le> maxLength then text
      else
        let truncated = substring0 text maxLength;
            lastSentence = lastIndexOf truncated CHR ''.''
        in if 10 * lastSentence > 7 * maxLength
           then substring0 truncated (lastSentence + 1)
           else truncated @ ''...'')"

definition response_summary_of :: "string \<Rightarrow> string" where
  "response_summary_of text = generateSummary text 500"

subsection \<open>\<open>analyzeSentiment\<close>\<close>

definition positiveWords :: "string list" where
  "positiveWords =
     [''best'', ''excellent'', ''top'', ''recommended'', ''leading'', ''outstanding'', ''superior'']"

definition negativeWords :: "string list" where
  "negativeWords = [''worst'', ''poor'', ''avoid'', ''bad'', ''terrible'', ''disappointing'']"

definition is_sentence_end :: "char \<Rightarrow> bool" where
  "is_sentence_end c = (c \<in> set [CHR ''.'', CHR ''!'', CHR ''?''])"

definition relevantSentences :: "string \<Rightarrow> string \<Rightarrow> string list" where
  "relevantSentences text dmn =
     filter (\<lambda>s. str_includes (toLowerCase s) (toLowerCase dmn)) (split_class is_sentence_end text)"

definition analyzeSentiment :: "string \<Rightarrow> string \<Rightarrow> Sentiment" where
  "analyzeSentiment text dmn =
     (let relevant = relevantSentences text dmn in
      if length relevant = 0 then Neutral
      else
        let relevantText = toLowerCase (join '' '' relevant);
            positiveCount = length (filter (\<lambda>w. str_includes relevantText w) positiveWords);
            negativeCount = length (filter (\<lambda>w. str_includes relevantText w) negativeWords)
        in if positiveCount > negativeCount then Positive
           else if negativeCount > positiveCount then Negative
           else Neutral)"

text \<open>
  The count the claim words describe, for comparison with \<open>analyzeSentiment\<close>: the
  number of positions of a text at which a word starts, so that a word occurring three
  times counts three times, summed over a lexicon.
\<close>

fun occurrences :: "string \<Rightarrow> string \<Rightarrow> nat" where
  "occurrences [] w = 0"
| "occurrences (c # cs) w = (if startsWith (c # cs) w then 1 else 0) + occurrences cs w"

definition claimedSentiment :: "string \<Rightarrow> string \<Rightarrow> Sentiment" where
  "claimedSentiment text dmn =
     (let relevant = relevantSentences text dmn in
      if relevant = [] then Neutral
      else
        let relevantText = toLowerCase (join '' '' relevant);
            positiveCount = sum_list (map (occurrences relevantText) positiveWords);
            negativeCount = sum_list (map (occurrences relevantText) negativeWords)
        in if positiveCount > negativeCount then Positive
           else if negativeCount > positiveCount then Negative
           else Neutral)"

section \<open>The tracking engine (\<open>services/trackingEngine.ts\<close>)\<close>

record CompetitorCitation =
  cc_domain :: string
  cc_url :: string
  cc_position :: int
  cc_context :: "string option"

record Citation =
  keyword_id :: string
  project_id :: string
  platform :: AIPlatform
  tracked_at :: nat
  domain_mentioned :: bool
  specific_url :: "string option"
  citation_position :: "int option"
  citation_context :: "string option"
  full_response_text :: string
  response_summary :: string
  sentiment :: Sentiment
  confidence_score :: rat
  word_count :: nat
  competitor_citations :: "CompetitorCitation list"
  total_sources_cited :: nat

record TrackResult =
  success :: bool
  citation :: "Citation option"
  error :: "string option"
  tr_platform :: AIPlatform
  responseTimeMs :: nat

record Keyword =
  kw_id :: string
  kw_project_id :: string
  keyword_text :: string
  kw_is_active :: bool
  last_tracked_at :: "nat option"

record Project =
  proj_id :: string
  organization_id :: string
  primary_domain :: string
  competitor_domains :: "string list"

text \<open>
  A provider service is outside the repository's logic. It is a function from the keyword
  text to what the awaited \<open>query\<close> call gives, a rejection with its message (\<open>Inl\<close>) or a
  response (\<open>Inr\<close>), together with the milliseconds the call took, which is what the engine
  measures with \<open>Date.now()\<close> around the call.
\<close>

type_synonym service = "string \<Rightarrow> (string + AIPlatformResponse) \<times> nat"

record TrackingEngine =
  geminiService :: "service option"
  serpApiService :: "service option"
  perplexityService :: "service option"
  openaiService :: "service option"

definition platform_str :: "AIPlatform \<Rightarrow> string" where
  "platform_str p =
     (case p of
        GOOGLE_AI_OVERVIEW \<Rightarrow> ''google_ai_overview''
      | GEMINI \<Rightarrow> ''gemini''
      | CHATGPT \<Rightarrow> ''chatgpt''
      | PERPLEXITY \<Rightarrow> ''perplexity''
      | COPILOT \<Rightarrow> ''copilot''
      | CLAUDE \<Rightarrow> ''claude''
      | GROK \<Rightarrow> ''grok''
      | DEEPSEEK \<Rightarrow> ''deepseek'')"

definition all_platforms :: "AIPlatform list" where
  "all_platforms =
     [GOOGLE_AI_OVERVIEW, GEMINI, CHATGPT, PERPLEXITY, COPILOT, CLAUDE, GROK, DEEPSEEK]"

subsection \<open>\<open>domainMatches\<close> and \<open>isDomainMentioned\<close>\<close>

definition normalize :: "string \<Rightarrow> string" where
  "normalize d =
     (let l = toLowerCase d;
          r = (if startsWith l ''www.'' then drop 4 l else l)
      in trim r)"

definition domainMatches :: "string \<Rightarrow> string \<Rightarrow> bool" where
  "domainMatches citationDomain targetDomain =
     (let normalizedCitation = normalize citationDomain;
          normalizedTarget = normalize targetDomain
      in normalizedCitation = normalizedTarget \<or>
         endsWith normalizedCitation (''.'' @ normalizedTarget))"

definition isDomainMentioned :: "AIPlatformResponse \<Rightarrow> string \<Rightarrow> bool" where
  "isDomainMentioned response d = list_ex (\<lambda>c. domainMatches (domain c) d) (citations response)"

subsection \<open>\<open>trackOnPlatform\<close>\<close>

definition failed_result :: "string \<Rightarrow> AIPlatform \<Rightarrow> nat \<Rightarrow> TrackResult" where
  "failed_result msg p ms =
     \<lparr>success = False, citation = None, error = Some msg, tr_platform = p, responseTimeMs = ms\<rparr>"

text \<open>
  The part of \<open>trackOnPlatform\<close> after the provider has answered: the error check on the
  response and the construction of the citation record. \<open>now\<close> is the clock read by
  \<open>new Date()\<close>. An \<open>error\<close> field counts when it is truthy: present and not empty.
\<close>

definition analyzeResponse ::
  "Keyword \<Rightarrow> Project \<Rightarrow> AIPlatform \<Rightarrow> nat \<Rightarrow> nat \<Rightarrow> AIPlatformResponse \<Rightarrow> TrackResult" where
  "analyzeResponse keyword project p responseTime now response =
     (if resp_error response \<noteq> None \<and> resp_error response \<noteq> Some []
      then failed_result (the (resp_error response)) p responseTime
      else
        let domainMentioned = isDomainMentioned response (primary_domain project);
            yourCitation =
              (if domainMentioned
               then find (\<lambda>c. domainMatches (domain c) (primary_domain project)) (citations response)
               else None);
            competitorCitations =
              map (\<lambda>c. \<lparr>cc_domain = domain c, cc_url = url c, cc_position = position c,
                         cc_context = snippet c\<rparr>)
                (filter (\<lambda>c. \<not> domainMatches (domain c) (primary_domain project))
                   (citations response));
            sent = analyzeSentiment (response_text response) (primary_domain project);
            cit = \<lparr>keyword_id = kw_id keyword,
                   project_id = proj_id project,
                   platform = p,
                   tracked_at = now,
                   domain_mentioned = domainMentioned,
                   specific_url = map_option url yourCitation,
                   citation_position = map_option position yourCitation,
                   citation_context = Option.bind yourCitation snippet,
                   full_response_text = response_text response,
                   response_summary = response_summary_of (response_text response),
                   sentiment = sent,
                   confidence_score = calculateConfidence response,
                   word_count = length (split_class is_space (response_text response)),
                   competitor_citations = competitorCitations,
                   total_sources_cited = length (citations response)\<rparr>
        in \<lparr>success = True, citation = Some cit, error = None, tr_platform = p,
            responseTimeMs = responseTime\<rparr>)"

text \<open>
  \<open>trackOnPlatform\<close> returns the outcome, a thrown message (\<open>Inl\<close>) or a result
  (\<open>Inr\<close>), and the clock after the call: a provider call advances the clock by the time
  it took.
\<close>

definition callService ::
  "service option \<Rightarrow> string \<Rightarrow> Keyword \<Rightarrow> Project \<Rightarrow> AIPlatform \<Rightarrow> nat
     \<Rightarrow> (string + TrackResult) \<times> nat" where
  "callService svc notConfigured keyword project p startTime =
     (case svc of
        None \<Rightarrow> (Inr (failed_result notConfigured p 0), startTime)
      | Some q \<Rightarrow>
          (case q (keyword_text keyword) of
             (Inl msg, ms) \<Rightarrow> (Inl msg, startTime + ms)
           | (Inr response, ms) \<Rightarrow>
               (Inr (analyzeResponse keyword project p ms (startTime + ms) response),
                startTime + ms)))"

definition trackOnPlatform ::
  "TrackingEngine \<Rightarrow> Keyword \<Rightarrow> Project \<Rightarrow> AIPlatform \<Rightarrow> nat \<Rightarrow> (string + TrackResult) \<times> nat" where
  "trackOnPlatform eng keyword project p startTime =
     (case p of
        GEMINI \<Rightarrow>
          callService (geminiService eng) ''Gemini not configured'' keyword project p startTime
      | GOOGLE_AI_OVERVIEW \<Rightarrow>
          callService (serpApiService eng) ''SERP API not configured'' keyword project p startTime
      | PERPLEXITY \<Rightarrow>
          callService (perplexityService eng) ''Perplexity not configured'' keyword project p
            startTime
      | CHATGPT \<Rightarrow>
          callService (openaiService eng) ''OpenAI not configured'' keyword project p startTime
      | _ \<Rightarrow>
          (Inr (failed_result (''Platform '' @ platform_str p @ '' not supported'') p 0),
           startTime))"

text \<open>
  The entries of a provider answer whose domain matches the primary domain of the
  project.
\<close>

definition targetCitations :: "AIPlatformResponse \<Rightarrow> Project \<Rightarrow> AICitation list" where
  "targetCitations response project =
     filter (\<lambda>c. domainMatches (domain c) (primary_domain project)) (citations response)"

section \<open>The persistent store (\<open>db/schema.sql\<close>)\<close>

datatype JobStatus = PENDING | PROCESSING | COMPLETED | FAILED | RETRYING

datatype AlertType =
  NEW_CITATION | LOST_CITATION | POSITION_CHANGE | COMPETITOR_GAIN | NEW_PLATFORM
  | SENTIMENT_SHIFT | VOLUME_SPIKE

datatype Severity = INFO | WARNING | CRITICAL

record TrackingJob =
  job_id :: nat
  job_project_id :: string
  job_keyword_id :: string
  job_platform :: AIPlatform
  status :: JobStatus
  scheduled_at :: nat
  started_at :: "nat option"
  completed_at :: "nat option"
  citation_found :: "bool option"
  result_data :: "TrackResult option"
  error_message :: "string option"
  retry_count :: nat

record Alert =
  alert_project_id :: string
  alert_organization_id :: string
  alert_type :: AlertType
  alert_title :: string
  description :: string
  severity :: Severity
  alert_keyword_id :: string
  alert_keyword_text :: string
  alert_platform :: AIPlatform
  previous_value :: "string option"
  current_value :: "string option"
  change_percent :: "rat option"

text \<open>
  The tables the tracker reads and writes, each as the list of its rows in insertion
  order, the clock (milliseconds), and the supply of fresh row identifiers that stands for
  \<open>uuid_generate_v4()\<close>. The \<open>organizations\<close> table is not part of the model.
\<close>

record store =
  citations_tbl :: "Citation list"
  keywords_tbl :: "Keyword list"
  projects_tbl :: "Project list"
  tracking_jobs_tbl :: "TrackingJob list"
  alerts_tbl :: "Alert list"
  clock :: nat
  next_uuid :: nat

subsection \<open>Identifiers of the schema\<close>

text \<open>
  The identifier columns of \<open>keywords\<close>, \<open>projects\<close>, \<open>citations\<close> and \<open>alerts\<close>
  have type \<open>UUID\<close>. A text bound to such a column has to read as a UUID, here 32
  hexadecimal digits in groups of 8, 4, 4, 4 and 12 (the other spellings the database
  reads, with braces or without hyphens, are not modelled); otherwise the statement fails
  with the error \<open>invalid_uuid\<close>. The model makes this check in \<open>storeCitation\<close>,
  \<open>updateKeywordTrackingTime\<close> and \<open>createAlert\<close>, the statements that the quick
  test and the worker run with identifiers the code writes itself (\<open>test\<close> and the
  empty text); these inserts check their references to \<open>keywords\<close> and \<open>projects\<close>
  as well. The queries of the other operations take their identifiers as they are given.
\<close>

definition is_hex :: "char \<Rightarrow> bool" where
  "is_hex c = (c \<in> set ''0123456789abcdefABCDEF'')"

definition is_uuid :: "string \<Rightarrow> bool" where
  "is_uuid s =
     (map (\<lambda>c. if is_hex c then CHR ''0'' else c) s = ''00000000-0000-0000-0000-000000000000'')"

definition invalid_uuid :: "string \<Rightarrow> string" where
  \<open>invalid_uuid v = ''invalid input syntax for type uuid: "'' @ v @ ''"''\<close>

definition fk_violation :: "string \<Rightarrow> string \<Rightarrow> string" where
  \<open>fk_violation tbl col =
     ''insert or update on table "'' @ tbl @ ''" violates foreign key constraint "''
     @ tbl @ ''_'' @ col @ ''_fkey"''\<close>

subsection \<open>\<open>storeCitation\<close>, \<open>updateKeywordTrackingTime\<close>, \<open>trackKeyword\<close>\<close>

text \<open>
  The insert of \<open>storeCitation\<close>: the error the query rejects with (\<open>Inl\<close>), or the
  store with the new row.
\<close>

definition storeCitation :: "Citation \<Rightarrow> store \<Rightarrow> string + store" where
  "storeCitation c s =
     (if \<not> is_uuid (keyword_id c) then Inl (invalid_uuid (keyword_id c))
      else if \<not> is_uuid (project_id c) then Inl (invalid_uuid (project_id c))
      else if \<not> list_ex (\<lambda>k. kw_id k = keyword_id c) (keywords_tbl s)
      then Inl (fk_violation ''citations'' ''keyword_id'')
      else if \<not> list_ex (\<lambda>p. proj_id p = project_id c) (projects_tbl s)
      then Inl (fk_violation ''citations'' ''project_id'')
      else Inr (s\<lparr>citations_tbl := citations_tbl s @ [c]\<rparr>))"

text \<open>
  The update of \<open>updateKeywordTrackingTime\<close>: the error of the query, or the store
  with the time stamp set on the rows of the keyword.
\<close>

definition updateKeywordTrackingTime :: "string \<Rightarrow> store \<Rightarrow> string + store" where
  "updateKeywordTrackingTime kid s =
     (if \<not> is_uuid kid then Inl (invalid_uuid kid)
      else Inr (s\<lparr>keywords_tbl :=
                   map (\<lambda>k. if kw_id k = kid then k\<lparr>last_tracked_at := Some (clock s)\<rparr> else k)
                     (keywords_tbl s)\<rparr>))"

text \<open>
  The loop of \<open>trackKeyword\<close> over the platforms. A result is pushed and, when it
  succeeded and carries a citation, the citation is stored. An error thrown by the
  provider call or by the insert is caught and pushed as a failed result with response
  time 0; after a rejected insert the result and the failed result are both in the list.
\<close>

fun trackPlatforms ::
  "TrackingEngine \<Rightarrow> Keyword \<Rightarrow> Project \<Rightarrow> AIPlatform list \<Rightarrow> store
     \<Rightarrow> TrackResult list \<times> store" where
  "trackPlatforms eng keyword project [] s = ([], s)"
| "trackPlatforms eng keyword project (p # ps) s =
     (case trackOnPlatform eng keyword project p (clock s) of
        (Inr result, t) \<Rightarrow>
          let s1 = s\<lparr>clock := t\<rparr>;
              (pushed, s2) =
                (if success result \<and> citation result \<noteq> None
                 then (case storeCitation (the (citation result)) s1 of
                         Inr s' \<Rightarrow> ([result], s')
                       | Inl msg \<Rightarrow> ([result, failed_result msg p 0], s1))
                 else ([result], s1));
              (results, s3) = trackPlatforms eng keyword project ps s2
          in (pushed @ results, s3)
      | (Inl msg, t) \<Rightarrow>
          let (results, s3) = trackPlatforms eng keyword project ps (s\<lparr>clock := t\<rparr>)
          in (failed_result msg p 0 # results, s3))"

text \<open>
  \<open>trackKeyword\<close>: the results, or the error of the final update of
  \<open>last_tracked_at\<close>, which nothing catches, and the store afterwards.
\<close>

definition trackKeyword ::
  "TrackingEngine \<Rightarrow> Keyword \<Rightarrow> Project \<Rightarrow> AIPlatform list \<Rightarrow> store
     \<Rightarrow> (string + TrackResult list) \<times> store" where
  "trackKeyword eng keyword project platforms s =
     (let (results, s1) = trackPlatforms eng keyword project platforms s
      in case updateKeywordTrackingTime (kw_id keyword) s1 of
           Inl msg \<Rightarrow> (Inl msg, s1)
         | Inr s2 \<Rightarrow> (Inr results, s2))"

text \<open>
  A citation row as a tracking run for a keyword and project stores it: it carries the
  identifier of the keyword, which reads as a UUID, and it is the citation of a
  successful \<open>analyzeResponse\<close>.
\<close>

definition analyzed_row :: "Keyword \<Rightarrow> Project \<Rightarrow> Citation \<Rightarrow> bool" where
  "analyzed_row keyword project c =
     (keyword_id c = kw_id keyword \<and> is_uuid (keyword_id c) \<and>
      (\<exists>p ms now response.
          success (analyzeResponse keyword project p ms now response) \<and>
          citation (analyzeResponse keyword project p ms now response) = Some c))"

section \<open>Alerts (\<open>routes/alerts.ts\<close>, \<open>worker/index.ts\<close>)\<close>

text \<open>
  The column \<open>alerts.change_percent\<close> is \<open>DECIMAL(6,2)\<close>: a value written to it is
  rounded to two decimals, half away from zero, and has to stay below 10000 in absolute
  value.
\<close>

definition decimal2 :: "rat \<Rightarrow> rat" where
  "decimal2 x = (if x \<ge> 0 then of_int \<lfloor>x * 100 + 1/2\<rfloor> / 100
                 else - (of_int \<lfloor>- x * 100 + 1/2\<rfloor> / 100))"

definition fits_decimal_6_2 :: "rat \<Rightarrow> bool" where
  "fits_decimal_6_2 x = (\<bar>decimal2 x\<bar> < 10000)"

text \<open>
  The insert of \<open>createAlert\<close>: the error the \<open>alerts\<close> table rejects the row
  with, if any. The identifiers have to read as UUIDs, the percentage has to fit its
  column, and the project and the keyword have to exist.
\<close>

definition alert_insert_error :: "Alert \<Rightarrow> store \<Rightarrow> string option" where
  "alert_insert_error a s =
     (if \<not> is_uuid (alert_project_id a) then Some (invalid_uuid (alert_project_id a))
      else if \<not> is_uuid (alert_organization_id a)
      then Some (invalid_uuid (alert_organization_id a))
      else if \<not> is_uuid (alert_keyword_id a) then Some (invalid_uuid (alert_keyword_id a))
      else if (case change_percent a of None \<Rightarrow> False | Some x \<Rightarrow> \<not> fits_decimal_6_2 x)
      then Some ''numeric field overflow''
      else if \<not> list_ex (\<lambda>p. proj_id p = alert_project_id a) (projects_tbl s)
      then Some (fk_violation ''alerts'' ''project_id'')
      else if \<not> list_ex (\<lambda>k. kw_id k = alert_keyword_id a) (keywords_tbl s)
      then Some (fk_violation ''alerts'' ''keyword_id'')
      else None)"

text \<open>
  \<open>createAlert\<close> catches the error of its insert and logs it: a rejected alert leaves
  the store as it was. An accepted one is stored with its percentage as the column
  keeps it.
\<close>

definition createAlert :: "Alert \<Rightarrow> store \<Rightarrow> store" where
  "createAlert a s =
     (case alert_insert_error a s of
        Some msg \<Rightarrow> s
      | None \<Rightarrow>
          s\<lparr>alerts_tbl :=
              alerts_tbl s @ [a\<lparr>change_percent := map_option decimal2 (change_percent a)\<rparr>]\<rparr>)"

text \<open>
  The query of \<open>checkForAlerts\<close>: the rows of the keyword and platform, newest first,
  the first one skipped (\<open>OFFSET 1\<close>), the next one taken (\<open>LIMIT 1\<close>).
\<close>

definition previousCitation :: "store \<Rightarrow> string \<Rightarrow> AIPlatform \<Rightarrow> Citation option" where
  "previousCitation s keywordId p =
     (case drop 1 (rev (sort_key tracked_at
                     (filter (\<lambda>c. keyword_id c = keywordId \<and> platform c = p) (citations_tbl s)))) of
        [] \<Rightarrow> None
      | r # _ \<Rightarrow> Some r)"

text \<open>A position is truthy when it is present and not 0.\<close>

definition truthy_position :: "int option \<Rightarrow> bool" where
  "truthy_position x = (case x of None \<Rightarrow> False | Some n \<Rightarrow> n \<noteq> 0)"

definition current_mentioned :: "TrackResult \<Rightarrow> bool" where
  "current_mentioned result = (case citation result of None \<Rightarrow> False | Some c \<Rightarrow> domain_mentioned c)"

definition current_position :: "TrackResult \<Rightarrow> int option" where
  "current_position result = Option.bind (citation result) citation_position"

text \<open>
  The branches of \<open>checkForAlerts\<close>: the alert it hands to \<open>createAlert\<close>, if any.
  The worker leaves the organization of the alert empty.
\<close>

definition checkForAlerts_alert ::
  "string \<Rightarrow> string \<Rightarrow> string \<Rightarrow> AIPlatform \<Rightarrow> TrackResult \<Rightarrow> store \<Rightarrow> Alert option" where
  \<open>checkForAlerts_alert projectId keywordId keywordText p result s =
     (let previous = previousCitation s keywordId p in
      if previous = None \<and> current_mentioned result
      then Some
             \<lparr>alert_project_id = projectId, alert_organization_id = [],
              alert_type = NEW_CITATION, alert_title = ''New Citation Detected'',
              description = ''Your domain was cited for "'' @ keywordText @ ''" on '' @ platform_str p,
              severity = INFO, alert_keyword_id = keywordId, alert_keyword_text = keywordText,
              alert_platform = p, previous_value = None, current_value = None,
              change_percent = None\<rparr>
      else if (case previous of None \<Rightarrow> False | Some pr \<Rightarrow> domain_mentioned pr)
              \<and> \<not> current_mentioned result
      then Some
             \<lparr>alert_project_id = projectId, alert_organization_id = [],
              alert_type = LOST_CITATION, alert_title = ''Citation Lost'',
              description = ''Your domain is no longer cited for "'' @ keywordText @ ''" on ''
                            @ platform_str p,
              severity = WARNING, alert_keyword_id = keywordId, alert_keyword_text = keywordText,
              alert_platform = p,
              previous_value = map_option int_to_string (citation_position (the previous)),
              current_value = None, change_percent = None\<rparr>
      else if truthy_position (Option.bind previous citation_position)
              \<and> truthy_position (current_position result)
      then
        let prevPos = the (citation_position (the previous));
            curPos = the (current_position result);
            positionChange = prevPos - curPos
        in if \<bar>positionChange\<bar> \<ge> 2
           then Some
                  \<lparr>alert_project_id = projectId, alert_organization_id = [],
                   alert_type = POSITION_CHANGE,
                   alert_title = (if positionChange > 0 then ''Position Improved''
                                  else ''Position Declined''),
                   description = ''Your citation position for "'' @ keywordText @ ''" on ''
                                 @ platform_str p @ '' changed from '' @ int_to_string prevPos
                                 @ '' to '' @ int_to_string curPos,
                   severity = (if positionChange > 0 then INFO else WARNING),
                   alert_keyword_id = keywordId, alert_keyword_text = keywordText,
                   alert_platform = p,
                   previous_value = Some (int_to_string prevPos),
                   current_value = Some (int_to_string curPos),
                   change_percent = Some (of_int positionChange / of_int prevPos * 100)\<rparr>
           else None
      else None)\<close>

definition checkForAlerts ::
  "string \<Rightarrow> string \<Rightarrow> string \<Rightarrow> AIPlatform \<Rightarrow> TrackResult \<Rightarrow> store \<Rightarrow> store" where
  "checkForAlerts pid kid ktext p result s =
     (case checkForAlerts_alert pid kid ktext p result s of
        None \<Rightarrow> s
      | Some a \<Rightarrow> createAlert a s)"

section \<open>The worker (\<open>worker/index.ts\<close>)\<close>

record TrackingJobData =
  jobId :: nat
  projectId :: string
  keywordId :: string
  jd_platform :: AIPlatform

definition update_job :: "nat \<Rightarrow> (TrackingJob \<Rightarrow> TrackingJob) \<Rightarrow> store \<Rightarrow> store" where
  "update_job jid f s =
     s\<lparr>tracking_jobs_tbl := map (\<lambda>j. if job_id j = jid then f j else j) (tracking_jobs_tbl s)\<rparr>"

text \<open>
  The join of \<open>keywords\<close> and \<open>projects\<close> for one keyword id: the keyword row and
  the row of its project, when both exist.
\<close>

definition keywordWithProject :: "store \<Rightarrow> string \<Rightarrow> (Keyword \<times> Project) option" where
  "keywordWithProject s kid =
     (case find (\<lambda>k. kw_id k = kid) (keywords_tbl s) of
        None \<Rightarrow> None
      | Some k \<Rightarrow>
          (case find (\<lambda>p. proj_id p = kw_project_id k) (projects_tbl s) of
             None \<Rightarrow> None
           | Some p \<Rightarrow> Some (k, p)))"

text \<open>
  The body of the \<open>try\<close> block of \<open>processTrackingJob\<close>: the store it leaves and
  the message of the exception it threw, if any. The tracking engine is \<open>None\<close> before
  \<open>initTrackingEngine\<close> has run.
\<close>

definition processTrackingJob_try ::
  "TrackingEngine option \<Rightarrow> TrackingJobData \<Rightarrow> store \<Rightarrow> store \<times> string option" where
  "processTrackingJob_try engine job s =
     (let s1 = update_job (jobId job)
                 (\<lambda>j. j\<lparr>status := PROCESSING, started_at := Some (clock s)\<rparr>) s
      in case keywordWithProject s1 (keywordId job) of
           None \<Rightarrow> (s1, Some ''Keyword not found'')
         | Some (keyword, project) \<Rightarrow>
             (case engine of
                None \<Rightarrow> (s1, Some ''Tracking engine not initialized'')
              | Some eng \<Rightarrow>
                  (case trackKeyword eng keyword project [jd_platform job] s1 of
                     (Inl msg, s2) \<Rightarrow> (s2, Some msg)
                   | (Inr results, s2) \<Rightarrow>
                       let result = hd results;
                           s3 = update_job (jobId job)
                                  (\<lambda>j. j\<lparr>status := COMPLETED, completed_at := Some (clock s2),
                                          citation_found := Some (current_mentioned result),
                                          result_data := Some result\<rparr>) s2;
                           s4 = checkForAlerts (projectId job) (keywordId job)
                                  (keyword_text keyword) (jd_platform job) result s3
                       in (s4, None))))"

text \<open>The \<open>catch\<close> block: the update of the job row before the error is thrown again.\<close>

definition processTrackingJob_catch :: "nat \<Rightarrow> string \<Rightarrow> store \<Rightarrow> store" where
  "processTrackingJob_catch jid msg s =
     update_job jid
       (\<lambda>j. j\<lparr>status := FAILED, error_message := Some msg, retry_count := retry_count j + 1\<rparr>) s"

definition processTrackingJob ::
  "TrackingEngine option \<Rightarrow> TrackingJobData \<Rightarrow> store \<Rightarrow> store \<times> string option" where
  "processTrackingJob engine job s =
     (case processTrackingJob_try engine job s of
        (s', None) \<Rightarrow> (s', None)
      | (s', Some msg) \<Rightarrow> (processTrackingJob_catch (jobId job) msg s', Some msg))"

section \<open>Scheduling and quick test (\<open>routes/public.ts\<close>)\<close>

record ScheduleRequest =
  req_project_id :: string
  req_keyword_ids :: "string list option"
  req_platforms :: "AIPlatform list option"
  req_scheduled_at :: "nat option"

text \<open>
  \<open>INSERT INTO tracking_jobs ... ON CONFLICT DO NOTHING RETURNING *\<close>. The row gets a
  fresh identifier and the column defaults. The only uniqueness constraint of
  \<open>tracking_jobs\<close> in the schema is the primary key \<open>id\<close>, so the insert is skipped
  only when a row with the new identifier exists.
\<close>

definition insert_tracking_job ::
  "string \<Rightarrow> string \<Rightarrow> AIPlatform \<Rightarrow> nat \<Rightarrow> store \<Rightarrow> TrackingJob option \<times> store" where
  "insert_tracking_job pid kid p scheduledTime s =
     (let row = \<lparr>job_id = next_uuid s, job_project_id = pid, job_keyword_id = kid,
                  job_platform = p, status = PENDING, scheduled_at = scheduledTime,
                  started_at = None, completed_at = None, citation_found = None,
                  result_data = None, error_message = None, retry_count = 0\<rparr>;
          s1 = s\<lparr>next_uuid := next_uuid s + 1\<rparr>
      in if list_ex (\<lambda>j. job_id j = job_id row) (tracking_jobs_tbl s)
         then (None, s1)
         else (Some row, s1\<lparr>tracking_jobs_tbl := tracking_jobs_tbl s @ [row]\<rparr>))"

fun insert_for_platforms ::
  "string \<Rightarrow> string \<Rightarrow> nat \<Rightarrow> AIPlatform list \<Rightarrow> store \<Rightarrow> TrackingJob list \<times> store" where
  "insert_for_platforms pid kid t [] s = ([], s)"
| "insert_for_platforms pid kid t (p # ps) s =
     (let (r, s1) = insert_tracking_job pid kid p t s;
          (jobs, s2) = insert_for_platforms pid kid t ps s1
      in ((case r of None \<Rightarrow> [] | Some j \<Rightarrow> [j]) @ jobs, s2))"

fun insert_for_keywords ::
  "string \<Rightarrow> nat \<Rightarrow> AIPlatform list \<Rightarrow> string list \<Rightarrow> store \<Rightarrow> TrackingJob list \<times> store" where
  "insert_for_keywords pid t ps [] s = ([], s)"
| "insert_for_keywords pid t ps (kid # kids) s =
     (let (jobs1, s1) = insert_for_platforms pid kid t ps s;
          (jobs2, s2) = insert_for_keywords pid t ps kids s1
      in (jobs1 @ jobs2, s2))"

text \<open>
  \<open>POST /schedule\<close> for a caller of organization \<open>org\<close>: an HTTP error (message and
  status) or the number of jobs scheduled, and the store afterwards.
\<close>

definition schedule :: "string \<Rightarrow> ScheduleRequest \<Rightarrow> store \<Rightarrow> (string \<times> nat + nat) \<times> store" where
  "schedule org req s =
     (if \<not> list_ex (\<lambda>p. proj_id p = req_project_id req \<and> organization_id p = org) (projects_tbl s)
      then (Inl (''Project not found'', 404), s)
      else
        let kids =
              (case req_keyword_ids req of
                 Some (k # ks) \<Rightarrow>
                   map kw_id (filter (\<lambda>kw. kw_project_id kw = req_project_id req
                                           \<and> kw_id kw \<in> set (k # ks)) (keywords_tbl s))
               | _ \<Rightarrow>
                   map kw_id (filter (\<lambda>kw. kw_project_id kw = req_project_id req
                                           \<and> kw_is_active kw) (keywords_tbl s)));
            platformList = (case req_platforms req of Some ps \<Rightarrow> ps | None \<Rightarrow> all_platforms);
            scheduledTime = (case req_scheduled_at req of Some t \<Rightarrow> t | None \<Rightarrow> clock s);
            (jobs, s1) = insert_for_keywords (req_project_id req) scheduledTime platformList kids s
        in (Inr (length jobs), s1))"

record QuickTestRequest =
  qt_keyword :: "string option"
  qt_platforms :: "AIPlatform list option"
  qt_domain :: "string option"

record QuickTestRow =
  qr_platform :: AIPlatform
  qr_success :: bool
  qr_citations :: nat
  qr_domainMentioned :: "bool option"
  qr_position :: "int option"
  qr_responseTimeMs :: nat
  qr_error :: "string option"

definition quick_test_row :: "TrackResult \<Rightarrow> QuickTestRow" where
  "quick_test_row r =
     \<lparr>qr_platform = tr_platform r, qr_success = success r,
      qr_citations = (case citation r of None \<Rightarrow> 0 | Some c \<Rightarrow> total_sources_cited c),
      qr_domainMentioned = map_option domain_mentioned (citation r),
      qr_position = Option.bind (citation r) citation_position,
      qr_responseTimeMs = responseTimeMs r, qr_error = error r\<rparr>"

text \<open>
  \<open>POST /quick-test\<close>: the error the handler ends with (its message, and its status
  when the error carries one) or the rows of the response, and the store afterwards. A
  missing or empty keyword is refused with status 400; a missing or empty domain is
  replaced by \<open>example.com\<close>. When \<open>trackKeyword\<close> throws, the handler ends with that
  error and the statement that deletes the test citations is not reached.
\<close>

definition quick_test ::
  "TrackingEngine option \<Rightarrow> QuickTestRequest \<Rightarrow> store
     \<Rightarrow> (string \<times> nat option + QuickTestRow list) \<times> store" where
  "quick_test engine req s =
     (case qt_keyword req of
        None \<Rightarrow> (Inl (''Keyword is required'', Some 400), s)
      | Some kw \<Rightarrow>
          if kw = [] then (Inl (''Keyword is required'', Some 400), s)
          else
            (case engine of
               None \<Rightarrow> (Inl (''Tracking engine not initialized'', None), s)
             | Some eng \<Rightarrow>
                 let platformList =
                       (case qt_platforms req of Some ps \<Rightarrow> ps
                        | None \<Rightarrow> [GEMINI, GOOGLE_AI_OVERVIEW]);
                     mockKeyword = \<lparr>kw_id = ''test'', kw_project_id = ''test'',
                                    keyword_text = kw, kw_is_active = True,
                                    last_tracked_at = None\<rparr>;
                     mockProject = \<lparr>proj_id = ''test'', organization_id = ''test'',
                                    primary_domain =
                                      (case qt_domain req of
                                         Some d \<Rightarrow> if d = [] then ''example.com'' else d
                                       | None \<Rightarrow> ''example.com''),
                                    competitor_domains = []\<rparr>
                 in case trackKeyword eng mockKeyword mockProject platformList s of
                      (Inl msg, s1) \<Rightarrow> (Inl (msg, None), s1)
                    | (Inr results, s1) \<Rightarrow>
                        (Inr (map quick_test_row results),
                         s1\<lparr>citations_tbl :=
                              filter (\<lambda>c. keyword_id c \<noteq> ''test'') (citations_tbl s1)\<rparr>)))"

section \<open>Scoring (\<open>services/scoring.ts\<close>)\<close>

record ScoreRow =
  row_platform :: AIPlatform
  citation_count :: nat
  keywords_ranked :: nat
  avg_position :: "rat option"
  positive_mentions :: nat
  negative_mentions :: nat

definition avg_rat :: "int list \<Rightarrow> rat option" where
  "avg_rat xs = (if xs = [] then None else Some (of_int (sum_list xs) / of_nat (length xs)))"

text \<open>
  The first query of \<open>calculateVisibilityScore\<close>: the citations of the project tracked
  since \<open>since\<close>, grouped by platform, one row of aggregates per platform present.
\<close>

definition citationsResult :: "store \<Rightarrow> string \<Rightarrow> nat \<Rightarrow> ScoreRow list" where
  "citationsResult s pid since =
     (let cs = filter (\<lambda>c. project_id c = pid \<and> tracked_at c \<ge> since) (citations_tbl s)
      in map (\<lambda>p.
            let g = filter (\<lambda>c. platform c = p) cs;
                self = filter domain_mentioned g
            in \<lparr>row_platform = p,
                citation_count = length self,
                keywords_ranked = length (remdups (map keyword_id self)),
                avg_position = avg_rat (concat (map (\<lambda>c. case citation_position c of
                                                           None \<Rightarrow> [] | Some n \<Rightarrow> [n]) self)),
                positive_mentions = length (filter (\<lambda>c. sentiment c = Positive) g),
                negative_mentions = length (filter (\<lambda>c. sentiment c = Negative) g)\<rparr>)
          (remdups (map platform cs)))"

text \<open>The second query: the number of active keywords of the project.\<close>

definition activeKeywordCount :: "store \<Rightarrow> string \<Rightarrow> nat" where
  "activeKeywordCount s pid =
     length (filter (\<lambda>k. kw_project_id k = pid \<and> kw_is_active k) (keywords_tbl s))"

definition calculateFrequencyScore :: "ScoreRow list \<Rightarrow> nat \<Rightarrow> rat" where
  "calculateFrequencyScore rows totalKeywords =
     (if totalKeywords = 0 then 0
      else
        let totalCitations = foldl (\<lambda>sum row. sum + citation_count row) 0 rows;
            citationsPerKeyword = of_nat totalCitations / of_nat totalKeywords
        in min 100 (citationsPerKeyword * 20))"

text \<open>
  The frequency component as \<open>calculateVisibilityScore\<close> computes it, at clock
  \<open>clock s\<close>; the window starts 30 days (of 86400000 ms) earlier (at 0 for a clock
  below 30 days, where every time stamp is in the window either way).
\<close>

definition thirtyDaysAgo :: "store \<Rightarrow> nat" where
  "thirtyDaysAgo s = clock s - 30 * 86400000"

definition frequencyScore :: "store \<Rightarrow> string \<Rightarrow> rat" where
  "frequencyScore s pid =
     calculateFrequencyScore (citationsResult s pid (thirtyDaysAgo s)) (activeKeywordCount s pid)"

text \<open>
  The self-citations of the scoring window: the citations of the project tracked in the
  last 30 days that mention the domain.
\<close>

definition selfCitations :: "store \<Rightarrow> string \<Rightarrow> Citation list" where
  "selfCitations s pid =
     filter (\<lambda>c. project_id c = pid \<and> thirtyDaysAgo s \<le> tracked_at c \<and> domain_mentioned c)
       (citations_tbl s)"

section \<open>Example data\<close>

text \<open>
  A project for \<open>acme.com\<close> with one keyword, and provider answers: one that cites the
  domain once (behind a competitor), one that cites two different pages of it.
\<close>

definition ex_keyword :: Keyword where
  "ex_keyword = \<lparr>kw_id = ''k1'', kw_project_id = ''p1'', keyword_text = ''best crm'',
                  kw_is_active = True, last_tracked_at = None\<rparr>"

definition ex_project :: Project where
  "ex_project = \<lparr>proj_id = ''p1'', organization_id = ''o1'', primary_domain = ''acme.com'',
                  competitor_domains = []\<rparr>"

definition ex_cite :: "string \<Rightarrow> string \<Rightarrow> int \<Rightarrow> AICitation" where
  "ex_cite u d n = \<lparr>url = u, title = None, snippet = None, position = n, domain = d,
                    is_you = False\<rparr>"

definition ex_response_one :: AIPlatformResponse where
  "ex_response_one =
     \<lparr>resp_platform = GEMINI, query = ''best crm'',
      response_text = ''Acme is a leading provider.'',
      citations = [ex_cite ''https://other.com/x'' ''other.com'' 1,
                   ex_cite ''https://www.acme.com/guide'' ''www.acme.com'' 2],
      response_time_ms = 120, resp_error = None\<rparr>"

definition ex_response_two :: AIPlatformResponse where
  "ex_response_two =
     \<lparr>resp_platform = GEMINI, query = ''best crm'',
      response_text = ''Acme is a leading provider.'',
      citations = [ex_cite ''https://acme.com/a'' ''acme.com'' 1,
                   ex_cite ''https://acme.com/b'' ''acme.com'' 2,
                   ex_cite ''https://other.com/x'' ''other.com'' 3],
      response_time_ms = 120, resp_error = None\<rparr>"

text \<open>
  A store holding the project and its keyword, and one holding in addition a pending job
  whose keyword \<open>k9\<close> does not exist.
\<close>

definition ex_store :: store where
  "ex_store = \<lparr>citations_tbl = [], keywords_tbl = [ex_keyword], projects_tbl = [ex_project],
                tracking_jobs_tbl = [], alerts_tbl = [], clock = 1000, next_uuid = 1\<rparr>"

definition ex_orphan_job :: TrackingJob where
  "ex_orphan_job =
     \<lparr>job_id = 7, job_project_id = ''p1'', job_keyword_id = ''k9'', job_platform = GEMINI,
      status = PENDING, scheduled_at = 900, started_at = None, completed_at = None,
      citation_found = None, result_data = None, error_message = None, retry_count = 0\<rparr>"

definition ex_orphan_data :: TrackingJobData where
  "ex_orphan_data = \<lparr>jobId = 7, projectId = ''p1'', keywordId = ''k9'', jd_platform = GEMINI\<rparr>"

definition ex_store_orphan :: store where
  "ex_store_orphan = ex_store\<lparr>tracking_jobs_tbl := [ex_orphan_job], next_uuid := 8\<rparr>"

text \<open>A request to schedule the active keywords of the project on one platform.\<close>

definition ex_schedule_request :: ScheduleRequest where
  "ex_schedule_request =
     \<lparr>req_project_id = ''p1'', req_keyword_ids = None, req_platforms = Some [GEMINI],
      req_scheduled_at = Some 2000\<rparr>"

text \<open>The key by which the planner is meant to tell jobs apart.\<close>

definition job_key :: "TrackingJob \<Rightarrow> string \<times> string \<times> AIPlatform \<times> nat" where
  "job_key j = (job_project_id j, job_keyword_id j, job_platform j, scheduled_at j)"

definition pending_jobs :: "store \<Rightarrow> TrackingJob list" where
  "pending_jobs s = filter (\<lambda>j. status j = PENDING) (tracking_jobs_tbl s)"

text \<open>
  A quick-test request and an engine whose Gemini service answers every query with
  \<open>ex_response_one\<close> after 120 ms.
\<close>

definition ex_engine :: TrackingEngine where
  "ex_engine = \<lparr>geminiService = Some (\<lambda>q. (Inr ex_response_one, 120)), serpApiService = None,
                 perplexityService = None, openaiService = None\<rparr>"

definition ex_quick_test :: QuickTestRequest where
  "ex_quick_test = \<lparr>qt_keyword = Some ''best crm'', qt_platforms = Some [GEMINI],
                     qt_domain = Some ''acme.com''\<rparr>"

text \<open>
  A store as the schema types it: the keyword, its project and the organization are
  named by UUIDs. The store holds given earlier citations of the keyword on Gemini and a
  pending job for the keyword and Gemini.
\<close>

definition ex_kid :: string where
  "ex_kid = ''6b1f0c52-3d8e-4a77-9c21-5e0d4f7a9b10''"

definition ex_pid :: string where
  "ex_pid = ''0a9e8d7c-6b5a-4f3e-8d2c-1b0a9f8e7d6c''"

definition ex_oid :: string where
  "ex_oid = ''c3d2e1f0-a9b8-4c7d-9e6f-5a4b3c2d1e0f''"

definition ex_tracked_keyword :: Keyword where
  "ex_tracked_keyword = \<lparr>kw_id = ex_kid, kw_project_id = ex_pid, keyword_text = ''best crm'',
                          kw_is_active = True, last_tracked_at = Some 100\<rparr>"

definition ex_tracked_project :: Project where
  "ex_tracked_project = \<lparr>proj_id = ex_pid, organization_id = ex_oid,
                          primary_domain = ''acme.com'', competitor_domains = []\<rparr>"

definition ex_citation_at :: "nat \<Rightarrow> bool \<Rightarrow> int option \<Rightarrow> Citation" where
  "ex_citation_at t m pos =
     \<lparr>keyword_id = ex_kid, project_id = ex_pid, platform = GEMINI, tracked_at = t,
      domain_mentioned = m, specific_url = None, citation_position = pos,
      citation_context = None, full_response_text = ''Acme is fine'',
      response_summary = ''Acme is fine'', sentiment = Neutral, confidence_score = 3/5,
      word_count = 3, competitor_citations = [], total_sources_cited = 1\<rparr>"

definition ex_job :: TrackingJob where
  "ex_job =
     \<lparr>job_id = 7, job_project_id = ex_pid, job_keyword_id = ex_kid, job_platform = GEMINI,
      status = PENDING, scheduled_at = 900, started_at = None, completed_at = None,
      citation_found = None, result_data = None, error_message = None, retry_count = 0\<rparr>"

definition ex_job_data :: TrackingJobData where
  "ex_job_data = \<lparr>jobId = 7, projectId = ex_pid, keywordId = ex_kid, jd_platform = GEMINI\<rparr>"

definition ex_tracked_store :: "Citation list \<Rightarrow> store" where
  "ex_tracked_store rows =
     \<lparr>citations_tbl = rows, keywords_tbl = [ex_tracked_keyword],
      projects_tbl = [ex_tracked_project], tracking_jobs_tbl = [ex_job], alerts_tbl = [],
      clock = 300, next_uuid = 8\<rparr>"

text \<open>
  Provider answers that cite the domain at a given position, or cite only a competitor,
  and engines whose Gemini service gives them after 120 ms; an engine with no provider
  configured.
\<close>

definition ex_response_at :: "int \<Rightarrow> AIPlatformResponse" where
  "ex_response_at n =
     \<lparr>resp_platform = GEMINI, query = ''best crm'', response_text = ''Acme is fine'',
      citations = [ex_cite ''https://acme.com/a'' ''acme.com'' n],
      response_time_ms = 120, resp_error = None\<rparr>"

definition ex_response_other :: AIPlatformResponse where
  "ex_response_other =
     \<lparr>resp_platform = GEMINI, query = ''best crm'', response_text = ''Other is fine'',
      citations = [ex_cite ''https://other.com/x'' ''other.com'' 1],
      response_time_ms = 120, resp_error = None\<rparr>"

definition ex_engine_at :: "int \<Rightarrow> TrackingEngine" where
  "ex_engine_at n = \<lparr>geminiService = Some (\<lambda>q. (Inr (ex_response_at n), 120)),
                      serpApiService = None, perplexityService = None, openaiService = None\<rparr>"

definition ex_engine_other :: TrackingEngine where
  "ex_engine_other = \<lparr>geminiService = Some (\<lambda>q. (Inr ex_response_other, 120)),
                       serpApiService = None, perplexityService = None, openaiService = None\<rparr>"

definition ex_engine_unconfigured :: TrackingEngine where
  "ex_engine_unconfigured = \<lparr>geminiService = None, serpApiService = None,
                              perplexityService = None, openaiService = None\<rparr>"

section \<open>Verified properties\<close>

subsection \<open>Confidence bound\<close>

text \<open>
  C10. For every provider response the confidence score lies in the closed interval from
  0.5 to 0.9: the base is 0.5 and the bonuses add at most 0.2 + 0.1 + 0.1.
\<close>

theorem calculateConfidence_bounds:
  "1/2 \<le> calculateConfidence response \<and> calculateConfidence response \<le> 9/10"
  by (simp add: calculateConfidence_def Let_def)

subsection \<open>Response summary\<close>

lemma lastIndexOf_lower: "-1 \<le> lastIndexOf xs c"
  by (induction xs) (auto simp: Let_def)

lemma lastIndexOf_upper: "lastIndexOf xs c < int (length xs)"
  by (induction xs) (auto simp: Let_def)

lemma lastIndexOf_absent: "lastIndexOf xs c = -1 \<longleftrightarrow> c \<notin> set xs"
proof (induction xs)
  case Nil
  then show ?case by simp
next
  case (Cons x xs)
  from lastIndexOf_lower [of xs c] have "lastIndexOf xs c + 1 \<noteq> -1" by linarith
  with Cons show ?case by (auto simp: Let_def)
qed

lemma lastIndexOf_found:
  "lastIndexOf xs c = int i \<Longrightarrow> i < length xs \<and> xs ! i = c \<and> (\<forall>j. i < j \<and> j < length xs \<longrightarrow> xs ! j \<noteq> c)"
proof (induction xs arbitrary: i)
  case Nil
  then show ?case by simp
next
  case (Cons x xs)
  show ?case
  proof (cases "lastIndexOf xs c = -1")
    case True
    with Cons.prems have xc: "x = c" and i0: "i = 0"
      by (auto simp: Let_def split: if_splits)
    from True have "c \<notin> set xs" by (simp add: lastIndexOf_absent)
    then have "\<forall>j. 0 < j \<and> j < length (x # xs) \<longrightarrow> (x # xs) ! j \<noteq> c"
      by (auto simp: nth_Cons split: nat.splits)
    with xc i0 show ?thesis by simp
  next
    case False
    with Cons.prems have r: "lastIndexOf xs c = int i - 1"
      by (auto simp: Let_def)
    with lastIndexOf_lower [of xs c] False have ipos: "0 < i" by (cases i) auto
    then obtain k where k: "i = Suc k" by (cases i) auto
    with r have "lastIndexOf xs c = int k" by simp
    from Cons.IH [OF this] k show ?thesis
      by (auto simp: nth_Cons split: nat.splits)
  qed
qed

lemma lastIndexOf_is:
  assumes "i < length xs" "xs ! i = c" "\<forall>j. i < j \<and> j < length xs \<longrightarrow> xs ! j \<noteq> c"
  shows "lastIndexOf xs c = int i"
proof -
  from assms(1,2) have "c \<in> set xs" by auto
  then have ne: "lastIndexOf xs c \<noteq> -1" by (simp add: lastIndexOf_absent)
  with lastIndexOf_lower [of xs c] have "0 \<le> lastIndexOf xs c" by linarith
  then obtain k where k: "lastIndexOf xs c = int k"
    using zero_le_imp_eq_int by blast
  from lastIndexOf_found [OF k] have kp: "k < length xs" "xs ! k = c"
    "\<forall>j. k < j \<and> j < length xs \<longrightarrow> xs ! j \<noteq> c" by auto
  have "k = i"
  proof (rule ccontr)
    assume "k \<noteq> i"
    then consider "k < i" | "i < k" by linarith
    then show False
      using kp assms by cases auto
  qed
  with k show ?thesis by simp
qed

text \<open>
  C5, as the code has it. The stored summary is at most 503 characters long. A text of at
  most 500 characters is returned unchanged. A longer text is cut just after the last full
  stop among its first 500 characters when that full stop is at an index above 350;
  otherwise the summary is the first 500 characters followed by three dots, 503 characters.
\<close>

theorem generateSummary_cut:
  "length (response_summary_of text) \<le> 503 \<and>
   (length text \<le> 500 \<longrightarrow> response_summary_of text = text) \<and>
   (500 < length text \<longrightarrow>
      (\<forall>i. 350 < i \<and> i < 500 \<and> text ! i = CHR ''.'' \<and>
            (\<forall>j. i < j \<and> j < 500 \<longrightarrow> text ! j \<noteq> CHR ''.'')
            \<longrightarrow> response_summary_of text = take (i + 1) text) \<and>
      ((\<forall>j. 350 < j \<and> j < 500 \<longrightarrow> text ! j \<noteq> CHR ''.'')
            \<longrightarrow> response_summary_of text = take 500 text @ ''...''))"
proof -
  let ?t = "take 500 text"
  let ?l = "lastIndexOf ?t CHR ''.''"
  have len: "length (response_summary_of text) \<le> 503"
    by (auto simp: response_summary_of_def generateSummary_def substring0_def Let_def)
  have fits: "length text \<le> 500 \<longrightarrow> response_summary_of text = text"
    by (simp add: response_summary_of_def generateSummary_def)
  have cut: "response_summary_of text = take (i + 1) text"
    if long: "500 < length text" and i: "350 < i" "i < 500" "text ! i = CHR ''.''"
      and last: "\<forall>j. i < j \<and> j < 500 \<longrightarrow> text ! j \<noteq> CHR ''.''" for i
  proof -
    from long have lt: "length ?t = 500" by simp
    have "?l = int i"
      using lt i last by (intro lastIndexOf_is) auto
    moreover from i have "take (nat (int i + 1)) ?t = take (i + 1) text"
      by (simp add: nat_add_distrib min_def)
    ultimately show ?thesis
      using long i by (simp add: response_summary_of_def generateSummary_def substring0_def Let_def)
  qed
  have hard: "response_summary_of text = take 500 text @ ''...''"
    if long: "500 < length text"
      and none: "\<forall>j. 350 < j \<and> j < 500 \<longrightarrow> text ! j \<noteq> CHR ''.''"
  proof -
    from long have lt: "length ?t = 500" by simp
    have "?l \<le> 350"
    proof (cases "?l = -1")
      case True
      then show ?thesis by simp
    next
      case False
      with lastIndexOf_lower [of ?t "CHR ''.''"] have "0 \<le> ?l" by linarith
      then obtain k where k: "?l = int k" using zero_le_imp_eq_int by blast
      from lastIndexOf_found [OF k] lt have "k < 500" "text ! k = CHR ''.''" by auto
      with none have "k \<le> 350" by (meson not_le_imp_less)
      with k show ?thesis by simp
    qed
    then show ?thesis
      using long by (simp add: response_summary_of_def generateSummary_def substring0_def Let_def)
  qed
  from len fits cut hard show ?thesis by blast
qed

theorem generateSummary_cut_witness:
  "response_summary_of ''Short answer.'' = ''Short answer.'' \<and>
   response_summary_of (replicate 400 CHR ''a'' @ ''.'' @ replicate 200 CHR ''b'')
     = replicate 400 CHR ''a'' @ ''.'' \<and>
   response_summary_of (replicate 501 CHR ''a'') = replicate 500 CHR ''a'' @ ''...'' \<and>
   length (response_summary_of (replicate 501 CHR ''a'')) \<le> 503"
proof -
  let ?s = "''Short answer.''"
  let ?m = "replicate 400 CHR ''a'' @ ''.'' @ replicate 200 CHR ''b''"
  let ?h = "replicate 501 CHR ''a''"
  have a: "response_summary_of ?s = ?s"
    using generateSummary_cut [of ?s] by simp
  have m1: "500 < length ?m" by simp
  have m2: "350 < (400::nat) \<and> (400::nat) < 500 \<and> ?m ! 400 = CHR ''.'' \<and>
            (\<forall>j. 400 < j \<and> j < 500 \<longrightarrow> ?m ! j \<noteq> CHR ''.'')"
    by (auto simp: nth_append)
  have "response_summary_of ?m = take (400 + 1) ?m"
    using generateSummary_cut [of ?m] m1 m2 by blast
  then have b: "response_summary_of ?m = replicate 400 CHR ''a'' @ ''.''"
    by simp
  have h1: "500 < length ?h" by simp
  have h2: "\<forall>j. 350 < j \<and> j < 500 \<longrightarrow> ?h ! j \<noteq> CHR ''.''" by simp
  have "response_summary_of ?h = take 500 ?h @ ''...''"
    using generateSummary_cut [of ?h] h1 h2 by blast
  then have c: "response_summary_of ?h = replicate 500 CHR ''a'' @ ''...''"
    by simp
  have d: "length (response_summary_of ?h) \<le> 503"
    using generateSummary_cut [of ?h] by blast
  from a b c d show ?thesis by blast
qed

theorem generateSummary_exceeds_500_counterexample:
  "\<not> length (response_summary_of (replicate 501 CHR ''a'')) \<le> 500"
proof -
  have "lastIndexOf (replicate 500 CHR ''a'') CHR ''.'' = -1"
    by (simp add: lastIndexOf_absent)
  then have "response_summary_of (replicate 501 CHR ''a'') = replicate 500 CHR ''a'' @ ''...''"
    by (simp add: response_summary_of_def generateSummary_def substring0_def Let_def)
  then show ?thesis by simp
qed

subsection \<open>Frequency component of the visibility score\<close>

lemma foldl_citation_count:
  "foldl (\<lambda>sum row. sum + citation_count row) a rows = a + sum_list (map citation_count rows)"
  by (induction rows arbitrary: a) auto

lemma sum_list_indicator_distinct:
  "distinct ps \<Longrightarrow> sum_list (map (\<lambda>p. if p = q then (1::nat) else 0) ps) = (if q \<in> set ps then 1 else 0)"
  by (induction ps) auto

lemma sum_list_zero_fun: "sum_list (map (\<lambda>p. 0::nat) ps) = 0"
  by (induction ps) auto

lemma group_count_total:
  "distinct ps \<Longrightarrow> set (map f xs) \<subseteq> set ps \<Longrightarrow>
   sum_list (map (\<lambda>p. length (filter P (filter (\<lambda>c. f c = p) xs))) ps) = length (filter P xs)"
proof (induction xs)
  case Nil
  then show ?case by (simp add: sum_list_zero_fun)
next
  case (Cons x xs)
  then have IH: "sum_list (map (\<lambda>p. length (filter P (filter (\<lambda>c. f c = p) xs))) ps) = length (filter P xs)"
    and mem: "f x \<in> set ps" by auto
  have split: "length (filter P (filter (\<lambda>c. f c = p) (x # xs))) =
        (if p = f x then (if P x then 1 else 0) else 0) + length (filter P (filter (\<lambda>c. f c = p) xs))" for p
    by auto
  have ind: "sum_list (map (\<lambda>p. if p = f x then (if P x then (1::nat) else 0) else 0) ps) = (if P x then 1 else 0)"
  proof (cases "P x")
    case True
    then show ?thesis using sum_list_indicator_distinct [OF Cons.prems(1), of "f x"] mem by simp
  next
    case False
    then have "(\<lambda>p. if p = f x then (if P x then (1::nat) else 0) else 0) = (\<lambda>p. 0)"
      by auto
    then show ?thesis using False by (simp only: sum_list_zero_fun if_False)
  qed
  have "sum_list (map (\<lambda>p. length (filter P (filter (\<lambda>c. f c = p) (x # xs)))) ps) =
        sum_list (map (\<lambda>p. (if p = f x then (if P x then 1 else 0) else 0) + length (filter P (filter (\<lambda>c. f c = p) xs))) ps)"
    by (simp only: split)
  also have "\<dots> = (if P x then 1 else 0) + length (filter P xs)"
    by (simp only: sum_list_addf IH ind)
  finally show ?case by simp
qed

lemma citationsResult_total:
  "sum_list (map citation_count (citationsResult s pid since)) =
   length (filter (\<lambda>c. project_id c = pid \<and> since \<le> tracked_at c \<and> domain_mentioned c) (citations_tbl s))"
proof -
  let ?cs = "filter (\<lambda>c. project_id c = pid \<and> tracked_at c \<ge> since) (citations_tbl s)"
  have "sum_list (map citation_count (citationsResult s pid since)) =
        sum_list (map (\<lambda>p. length (filter domain_mentioned (filter (\<lambda>c. platform c = p) ?cs)))
                    (remdups (map platform ?cs)))"
    by (simp add: citationsResult_def Let_def comp_def)
  also have "\<dots> = length (filter domain_mentioned ?cs)"
    by (rule group_count_total) auto
  also have "\<dots> = length (filter (\<lambda>c. project_id c = pid \<and> since \<le> tracked_at c \<and> domain_mentioned c) (citations_tbl s))"
    by (simp add: conj_ac)
  finally show ?thesis .
qed

text \<open>
  C9, as the code has it. With K the number of active keywords of the project and C_self
  its self-citations of the 30-day window, the frequency component is 0 when K is 0 and
  the smaller of 100 and (the size of C_self divided by K) times 20 otherwise. The guard
  on K = 0 returns 0 whatever the number of self-citations; there is no divisor 1.
\<close>

theorem frequencyScore_formula:
  "frequencyScore s pid =
     (if activeKeywordCount s pid = 0 then 0
      else min 100 (of_nat (length (selfCitations s pid)) / of_nat (activeKeywordCount s pid) * 20))"
  by (simp add: frequencyScore_def calculateFrequencyScore_def foldl_citation_count
      citationsResult_total selfCitations_def Let_def)

theorem frequency_zero_keywords_counterexample:
  "calculateFrequencyScore
     [\<lparr>row_platform = GEMINI, citation_count = 3, keywords_ranked = 1, avg_position = Some 1,
       positive_mentions = 0, negative_mentions = 0\<rparr>] 0
   \<noteq> min 100 (of_nat 3 / of_nat (max 0 1) * 20)"
  by (simp add: calculateFrequencyScore_def)

subsection \<open>Sources cited\<close>

lemma success_analyzeResponse:
  "success (analyzeResponse keyword project p ms now response) \<longleftrightarrow>
   (resp_error response = None \<or> resp_error response = Some [])"
  by (auto simp: analyzeResponse_def failed_result_def Let_def)

lemma citation_analyzeResponse_failed:
  "\<not> success (analyzeResponse keyword project p ms now response) \<Longrightarrow>
   citation (analyzeResponse keyword project p ms now response) = None"
  by (auto simp: analyzeResponse_def failed_result_def Let_def split: if_splits)

lemma analyzeResponse_fields:
  assumes "success (analyzeResponse keyword project p ms now response)"
  shows "\<exists>c. citation (analyzeResponse keyword project p ms now response) = Some c \<and>
     keyword_id c = kw_id keyword \<and> platform c = p \<and> tracked_at c = now \<and>
     domain_mentioned c = (targetCitations response project \<noteq> []) \<and>
     citation_position c = map_option position (find (\<lambda>a. domainMatches (domain a) (primary_domain project)) (citations response)) \<and>
     length (competitor_citations c) =
       length (filter (\<lambda>a. \<not> domainMatches (domain a) (primary_domain project)) (citations response)) \<and>
     total_sources_cited c = length (citations response)"
proof -
  from assms have ok: "resp_error response = None \<or> resp_error response = Some []"
    by (simp add: success_analyzeResponse)
  have ex: "list_ex P xs \<longleftrightarrow> filter P xs \<noteq> []" for P :: "AICitation \<Rightarrow> bool" and xs
    by (induction xs) auto
  have fnd: "\<not> list_ex P xs \<Longrightarrow> find P xs = None" for P :: "AICitation \<Rightarrow> bool" and xs
    by (induction xs) auto
  show ?thesis
    using ok
    by (auto simp: analyzeResponse_def Let_def isDomainMentioned_def targetCitations_def ex fnd [unfolded ex]
             simp del: list_ex_iff)
qed

lemma ex_one_targets: "targetCitations ex_response_one ex_project = [ex_cite ''https://www.acme.com/guide'' ''www.acme.com'' 2]"
  by code_simp

text \<open>
  C1, as the code has it. For every citation record of a successful tracking attempt,
  \<open>total_sources_cited\<close> is the number of entries of the provider answer whose domain
  matches the primary domain plus the length of \<open>competitor_citations\<close>: matching
  entries are not collapsed. It equals (1 if \<open>domain_mentioned\<close> else 0) plus the length
  of \<open>competitor_citations\<close> when at most one entry matches.
\<close>

theorem total_sources_cited_count:
  assumes "success (analyzeResponse keyword project p ms now response)"
  shows "\<exists>c. citation (analyzeResponse keyword project p ms now response) = Some c \<and>
     total_sources_cited c = length (targetCitations response project) + length (competitor_citations c) \<and>
     (length (targetCitations response project) \<le> 1 \<longrightarrow>
        total_sources_cited c = (if domain_mentioned c then 1 else 0) + length (competitor_citations c))"
proof -
  from analyzeResponse_fields [OF assms] obtain c where
    c: "citation (analyzeResponse keyword project p ms now response) = Some c"
    and dm: "domain_mentioned c = (targetCitations response project \<noteq> [])"
    and comp: "length (competitor_citations c) =
       length (filter (\<lambda>a. \<not> domainMatches (domain a) (primary_domain project)) (citations response))"
    and tot: "total_sources_cited c = length (citations response)"
    by blast
  have part: "length xs = length (filter P xs) + length (filter (\<lambda>a. \<not> P a) xs)"
    for P :: "AICitation \<Rightarrow> bool" and xs
    by (induction xs) auto
  have sum: "total_sources_cited c = length (targetCitations response project) + length (competitor_citations c)"
    unfolding tot comp targetCitations_def by (rule part)
  have "total_sources_cited c = (if domain_mentioned c then 1 else 0) + length (competitor_citations c)"
    if "length (targetCitations response project) \<le> 1"
  proof (cases "targetCitations response project")
    case Nil
    with sum dm show ?thesis by simp
  next
    case (Cons a as)
    with that have "length (targetCitations response project) = 1" by simp
    with sum dm Cons show ?thesis by simp
  qed
  with c sum show ?thesis by blast
qed


theorem total_sources_cited_count_witness:
  "success (analyzeResponse ex_keyword ex_project GEMINI 120 5000 ex_response_one) \<and>
   length (targetCitations ex_response_one ex_project) \<le> 1 \<and>
   (\<exists>c. citation (analyzeResponse ex_keyword ex_project GEMINI 120 5000 ex_response_one) = Some c \<and>
        total_sources_cited c = 2 \<and>
        total_sources_cited c = (if domain_mentioned c then 1 else 0) + length (competitor_citations c))"
proof -
  have s: "success (analyzeResponse ex_keyword ex_project GEMINI 120 5000 ex_response_one)"
    by (simp add: success_analyzeResponse ex_response_one_def)
  have l: "length (targetCitations ex_response_one ex_project) \<le> 1"
    by (simp add: ex_one_targets)
  from total_sources_cited_count [OF s] l obtain c where
    c: "citation (analyzeResponse ex_keyword ex_project GEMINI 120 5000 ex_response_one) = Some c"
    and t: "total_sources_cited c = (if domain_mentioned c then 1 else 0) + length (competitor_citations c)"
    by blast
  from analyzeResponse_fields [OF s] c have "total_sources_cited c = 2"
    by (auto simp: ex_response_one_def)
  with s l c t show ?thesis by blast
qed

text \<open>
  Two different pages of \<open>acme.com\<close> and one competitor page: three sources are counted,
  where the formula of the claim gives two.
\<close>

theorem total_sources_two_targets_counterexample:
  "success (analyzeResponse ex_keyword ex_project GEMINI 120 5000 ex_response_two) \<and>
   total_sources_cited
     (the (citation (analyzeResponse ex_keyword ex_project GEMINI 120 5000 ex_response_two)))
   \<noteq> (if domain_mentioned
            (the (citation (analyzeResponse ex_keyword ex_project GEMINI 120 5000 ex_response_two)))
        then 1 else 0)
       + length (competitor_citations
           (the (citation (analyzeResponse ex_keyword ex_project GEMINI 120 5000 ex_response_two))))"
  by code_simp

subsection \<open>Scheduling the same batch twice\<close>

lemma insert_tracking_job_fresh:
  assumes "\<forall>j \<in> set (tracking_jobs_tbl s). job_id j < next_uuid s"
  shows "\<exists>row. insert_tracking_job pid kid p t s =
           (Some row, s\<lparr>next_uuid := next_uuid s + 1,
                          tracking_jobs_tbl := tracking_jobs_tbl s @ [row]\<rparr>)
         \<and> job_key row = (pid, kid, p, t) \<and> status row = PENDING"
proof -
  from assms have "\<not> list_ex (\<lambda>j. job_id j = next_uuid s) (tracking_jobs_tbl s)"
    by (auto simp: list_ex_iff)
  then show ?thesis
    by (simp add: insert_tracking_job_def Let_def job_key_def)
qed

lemma ex_schedule_once:
  "schedule ''o1'' ex_schedule_request ex_store =
     (Inr 1, ex_store\<lparr>tracking_jobs_tbl :=
        [\<lparr>job_id = 1, job_project_id = ''p1'', job_keyword_id = ''k1'', job_platform = GEMINI,
          status = PENDING, scheduled_at = 2000, started_at = None, completed_at = None,
          citation_found = None, result_data = None, error_message = None, retry_count = 0\<rparr>],
        next_uuid := 2\<rparr>)"
  by (simp add: schedule_def ex_schedule_request_def ex_store_def ex_project_def ex_keyword_def
      insert_tracking_job_def Let_def)

text \<open>
  C2, evaluated on the code. The same request, with the same \<open>scheduled_at\<close>, is
  submitted twice. Each submission reports one job scheduled; afterwards there are two
  pending rows for a single (project, keyword, platform, scheduled_at) key. The insert
  says \<open>ON CONFLICT DO NOTHING\<close>, but the table has no uniqueness constraint on that
  key to conflict with.
\<close>

theorem schedule_twice_inserts_duplicates:
  "fst (schedule ''o1'' ex_schedule_request ex_store) = Inr 1 \<and>
   fst (schedule ''o1'' ex_schedule_request (snd (schedule ''o1'' ex_schedule_request ex_store))) = Inr 1 \<and>
   length (pending_jobs (snd (schedule ''o1'' ex_schedule_request
                               (snd (schedule ''o1'' ex_schedule_request ex_store))))) = 2 \<and>
   length (remdups (map job_key (pending_jobs (snd (schedule ''o1'' ex_schedule_request
                               (snd (schedule ''o1'' ex_schedule_request ex_store))))))) = 1"
  by (simp add: ex_schedule_once)
     (simp add: schedule_def ex_schedule_request_def ex_store_def ex_project_def ex_keyword_def
      insert_tracking_job_def pending_jobs_def job_key_def Let_def)

subsection \<open>Sentiment\<close>

lemma startsWith_iff: "startsWith s p \<longleftrightarrow> (\<exists>post. s = p @ post)"
  by (induction s p rule: startsWith.induct) auto

lemma str_includes_iff: "str_includes s sub \<longleftrightarrow> (\<exists>pre post. s = pre @ sub @ post)"
proof (induction s)
  case Nil
  then show ?case by auto
next
  case (Cons c cs)
  show ?case
  proof
    assume "str_includes (c # cs) sub"
    then consider "startsWith (c # cs) sub" | "str_includes cs sub" by auto
    then show "\<exists>pre post. c # cs = pre @ sub @ post"
    proof cases
      case 1
      then obtain post where "c # cs = sub @ post" by (auto simp: startsWith_iff)
      then have "c # cs = [] @ sub @ post" by simp
      then show ?thesis by blast
    next
      case 2
      with Cons obtain pre post where "cs = pre @ sub @ post" by blast
      then have "c # cs = (c # pre) @ sub @ post" by simp
      then show ?thesis by blast
    qed
  next
    assume "\<exists>pre post. c # cs = pre @ sub @ post"
    then obtain pre post where e: "c # cs = pre @ sub @ post" by blast
    show "str_includes (c # cs) sub"
    proof (cases pre)
      case Nil
      with e have "startsWith (c # cs) sub" by (auto simp: startsWith_iff)
      then show ?thesis by simp
    next
      case (Cons a as)
      with e have "cs = as @ sub @ post" by simp
      with Cons.IH have "str_includes cs sub" by blast
      then show ?thesis by simp
    qed
  qed
qed

lemma split_run_pieces:
  "piece \<in> set (split_run sep b cur cs) \<Longrightarrow> \<forall>c \<in> set cur. \<not> sep c \<Longrightarrow> \<forall>c \<in> set piece. \<not> sep c"
proof (induction cs arbitrary: b cur)
  case Nil
  then show ?case by auto
next
  case (Cons x xs)
  show ?case
  proof (cases "sep x")
    case True
    show ?thesis
    proof (cases b)
      case True
      with \<open>sep x\<close> Cons.prems have "piece \<in> set (split_run sep True cur xs)" by simp
      from Cons.IH [OF this Cons.prems(2)] show ?thesis .
    next
      case False
      with \<open>sep x\<close> Cons.prems have "piece = rev cur \<or> piece \<in> set (split_run sep True [] xs)"
        by simp
      then show ?thesis
      proof
        assume "piece = rev cur"
        with Cons.prems(2) show ?thesis by simp
      next
        assume "piece \<in> set (split_run sep True [] xs)"
        from Cons.IH [OF this] show ?thesis by simp
      qed
    qed
  next
    case False
    with Cons.prems have "piece \<in> set (split_run sep False (x # cur) xs)" by simp
    moreover from False Cons.prems(2) have "\<forall>c \<in> set (x # cur). \<not> sep c" by simp
    ultimately show ?thesis by (rule Cons.IH)
  qed
qed

lemma to_lower_char_sentence_end: "is_sentence_end (to_lower_char c) \<longleftrightarrow> is_sentence_end c"
  by (auto simp: to_lower_char_def is_sentence_end_def split: if_splits)

lemma relevantSentences_dotted:
  assumes "\<exists>c \<in> set dmn. is_sentence_end c"
  shows "relevantSentences text dmn = []"
proof -
  from assms obtain c where c: "c \<in> set dmn" "is_sentence_end c" by blast
  have "\<not> str_includes (toLowerCase s) (toLowerCase dmn)"
    if s: "s \<in> set (split_class is_sentence_end text)" for s
  proof
    assume "str_includes (toLowerCase s) (toLowerCase dmn)"
    then obtain pre post where e: "toLowerCase s = pre @ toLowerCase dmn @ post"
      by (auto simp: str_includes_iff)
    from c have "to_lower_char c \<in> set (toLowerCase dmn)" by (simp add: toLowerCase_def)
    with e have "to_lower_char c \<in> set (toLowerCase s)" by simp
    then obtain d where d: "d \<in> set s" "to_lower_char d = to_lower_char c"
      by (auto simp: toLowerCase_def)
    from c(2) d(2) have "is_sentence_end d"
      using to_lower_char_sentence_end [of d] to_lower_char_sentence_end [of c] by simp
    moreover from split_run_pieces [of s is_sentence_end False "[]" "text"] s
    have "\<forall>x \<in> set s. \<not> is_sentence_end x" by (simp add: split_class_def)
    ultimately show False using d(1) by blast
  qed
  then show ?thesis by (simp add: relevantSentences_def filter_empty_conv)
qed

lemma analyzeSentiment_dotted_domain:
  "\<exists>c \<in> set dmn. is_sentence_end c \<Longrightarrow> analyzeSentiment text dmn = Neutral"
  by (simp add: analyzeSentiment_def relevantSentences_dotted)

lemma distinct_lexicons: "distinct positiveWords" "distinct negativeWords"
  by (simp_all add: positiveWords_def negativeWords_def)

lemma length_filter_card:
  "distinct xs \<Longrightarrow> length (filter P xs) = card {w \<in> set xs. P w}"
  by (simp add: distinct_length_filter Int_def conj_commute)

text \<open>
  C6, as the code has it. The text is split into sentences at runs of full stops,
  exclamation marks and question marks; the sentences whose lower-cased form contains the
  lower-cased domain are kept; with none kept the sentiment is neutral. Otherwise the
  positive count is the number of words of the positive lexicon that occur somewhere in
  the kept sentences (joined by spaces, lower-cased), and likewise the negative count:
  a word counts once however often it occurs. The sentiment is positive when the positive
  count is the greater, negative when the negative count is the greater, neutral on a tie.
\<close>

theorem analyzeSentiment_counts_words_once:
  "analyzeSentiment text dmn =
     (let kept = filter (\<lambda>s. \<exists>pre post. toLowerCase s = pre @ toLowerCase dmn @ post)
                   (split_class is_sentence_end text);
          relevantText = toLowerCase (join '' '' kept);
          positiveCount = card {w \<in> set positiveWords. \<exists>pre post. relevantText = pre @ w @ post};
          negativeCount = card {w \<in> set negativeWords. \<exists>pre post. relevantText = pre @ w @ post}
      in if kept = [] then Neutral
         else if positiveCount > negativeCount then Positive
         else if negativeCount > positiveCount then Negative
         else Neutral)"
  by (simp add: analyzeSentiment_def relevantSentences_def Let_def str_includes_iff
      length_filter_card [OF distinct_lexicons(1)] length_filter_card [OF distinct_lexicons(2)])

text \<open>
  A text that says \<open>bad\<close> twice and \<open>best\<close> once: one negative word and one positive
  word occur, so the code answers neutral; counting every occurrence gives negative.
\<close>

theorem repeated_word_counterexample:
  "analyzeSentiment ''Acme is bad, really bad, but some call it the best'' ''acme'' = Neutral \<and>
   claimedSentiment ''Acme is bad, really bad, but some call it the best'' ''acme'' = Negative"
  by code_simp

subsection \<open>What a tracking run changes in the store\<close>

text \<open>
  Every citation row a tracking run adds to the store is the citation of a successful
  \<open>analyzeResponse\<close> for the keyword and project of the run, under a keyword
  identifier that reads as a UUID; nothing else is written by the loop.
\<close>

lemma callService_result:
  assumes "callService svc msg keyword project p t = (Inr result, t')"
  shows "(\<not> success result \<and> citation result = None) \<or>
         (\<exists>response ms. result = analyzeResponse keyword project p ms t' response)"
  using assms
  by (auto simp: callService_def failed_result_def split: option.splits prod.splits sum.splits)

lemma trackOnPlatform_result:
  assumes "trackOnPlatform eng keyword project p t = (Inr result, t')"
  shows "(\<not> success result \<and> citation result = None) \<or>
         (\<exists>response ms. result = analyzeResponse keyword project p ms t' response)"
proof (cases p)
  case GEMINI
  with assms show ?thesis by (auto simp: trackOnPlatform_def dest: callService_result)
next
  case GOOGLE_AI_OVERVIEW
  with assms show ?thesis by (auto simp: trackOnPlatform_def dest: callService_result)
next
  case PERPLEXITY
  with assms show ?thesis by (auto simp: trackOnPlatform_def dest: callService_result)
next
  case CHATGPT
  with assms show ?thesis by (auto simp: trackOnPlatform_def dest: callService_result)
qed (use assms in \<open>auto simp: trackOnPlatform_def failed_result_def\<close>)

lemma analyzeResponse_keyword_id:
  "citation (analyzeResponse keyword project p ms now response) = Some c \<Longrightarrow>
   keyword_id c = kw_id keyword"
  by (auto simp: analyzeResponse_def failed_result_def Let_def split: if_splits)

lemma trackOnPlatform_keyword_id:
  assumes "trackOnPlatform eng keyword project p t = (Inr result, t')" "citation result = Some c"
  shows "keyword_id c = kw_id keyword"
  using trackOnPlatform_result [OF assms(1)] assms(2)
  by (auto dest: analyzeResponse_keyword_id)

lemma storeCitation_Inr:
  "storeCitation c s = Inr s' \<Longrightarrow>
   s' = s\<lparr>citations_tbl := citations_tbl s @ [c]\<rparr> \<and> is_uuid (keyword_id c)"
  by (auto simp: storeCitation_def split: if_splits)

text \<open>The step of the loop for one result: what is pushed and the store afterwards.\<close>

lemma trackPlatforms_step:
  assumes "(if success result \<and> citation result \<noteq> None
            then (case storeCitation (the (citation result)) s1 of
                    Inr s' \<Rightarrow> ([result], s')
                  | Inl msg \<Rightarrow> ([result, failed_result msg p 0], s1))
            else ([result], s1)) = (pushed, s2)"
  shows "s2 = s1 \<or>
         (\<exists>c. success result \<and> citation result = Some c \<and> is_uuid (keyword_id c) \<and>
              s2 = s1\<lparr>citations_tbl := citations_tbl s1 @ [c]\<rparr>)"
  using assms
  by (auto split: if_splits sum.splits dest: storeCitation_Inr)

lemma trackPlatforms_frame:
  "trackPlatforms eng keyword project ps s = (results, s') \<Longrightarrow>
   (\<exists>new. citations_tbl s' = citations_tbl s @ new \<and>
      (\<forall>c \<in> set new. analyzed_row keyword project c)) \<and>
   keywords_tbl s' = keywords_tbl s \<and> projects_tbl s' = projects_tbl s \<and>
   tracking_jobs_tbl s' = tracking_jobs_tbl s \<and> alerts_tbl s' = alerts_tbl s \<and>
   next_uuid s' = next_uuid s"
proof (induction ps arbitrary: s results s')
  case Nil
  then show ?case by simp
next
  case (Cons p ps)
  obtain out t where tr: "trackOnPlatform eng keyword project p (clock s) = (out, t)"
    by (cases "trackOnPlatform eng keyword project p (clock s)")
  show ?case
  proof (cases out)
    case (Inl msg)
    obtain rs s3 where rec: "trackPlatforms eng keyword project ps (s\<lparr>clock := t\<rparr>) = (rs, s3)"
      by (cases "trackPlatforms eng keyword project ps (s\<lparr>clock := t\<rparr>)")
    with Cons.prems tr Inl have "s' = s3" by simp
    with Cons.IH [OF rec] show ?thesis by simp
  next
    case (Inr result)
    let ?s1 = "s\<lparr>clock := t\<rparr>"
    obtain pushed s2 where st:
      "(if success result \<and> citation result \<noteq> None
        then (case storeCitation (the (citation result)) ?s1 of
                Inr s' \<Rightarrow> ([result], s')
              | Inl msg \<Rightarrow> ([result, failed_result msg p 0], ?s1))
        else ([result], ?s1)) = (pushed, s2)"
      by (cases "(if success result \<and> citation result \<noteq> None
        then (case storeCitation (the (citation result)) ?s1 of
                Inr s' \<Rightarrow> ([result], s')
              | Inl msg \<Rightarrow> ([result, failed_result msg p 0], ?s1))
        else ([result], ?s1))") auto
    obtain rs s3 where rec: "trackPlatforms eng keyword project ps s2 = (rs, s3)"
      by (cases "trackPlatforms eng keyword project ps s2")
    from Cons.prems tr Inr st rec have s': "s' = s3" by (simp add: Let_def)
    have step: "(\<exists>new. citations_tbl s2 = citations_tbl s @ new \<and>
                   (\<forall>c \<in> set new. analyzed_row keyword project c)) \<and>
       keywords_tbl s2 = keywords_tbl s \<and> projects_tbl s2 = projects_tbl s \<and>
       tracking_jobs_tbl s2 = tracking_jobs_tbl s \<and> alerts_tbl s2 = alerts_tbl s \<and>
       next_uuid s2 = next_uuid s"
      using trackPlatforms_step [OF st]
    proof
      assume "s2 = ?s1"
      then have "\<exists>new. citations_tbl s2 = citations_tbl s @ new \<and>
                   (\<forall>c \<in> set new. analyzed_row keyword project c)"
        by (intro exI [of _ "[]"]) simp
      with \<open>s2 = ?s1\<close> show ?thesis by simp
    next
      assume "\<exists>c. success result \<and> citation result = Some c \<and> is_uuid (keyword_id c) \<and>
              s2 = ?s1\<lparr>citations_tbl := citations_tbl ?s1 @ [c]\<rparr>"
      then obtain c where c: "success result" "citation result = Some c" "is_uuid (keyword_id c)"
        and s2: "s2 = ?s1\<lparr>citations_tbl := citations_tbl ?s1 @ [c]\<rparr>" by blast
      from trackOnPlatform_result [OF tr [unfolded Inr]] c
      obtain response ms where "result = analyzeResponse keyword project p ms t response"
        by auto
      with c have an: "success (analyzeResponse keyword project p ms t response)"
        "citation (analyzeResponse keyword project p ms t response) = Some c" by simp_all
      from analyzeResponse_keyword_id [OF an(2)] c(3) an have "analyzed_row keyword project c"
        unfolding analyzed_row_def by blast
      then have "\<forall>c' \<in> set [c]. analyzed_row keyword project c'" by simp
      moreover from s2 have "citations_tbl s2 = citations_tbl s @ [c]" by simp
      ultimately have "\<exists>new. citations_tbl s2 = citations_tbl s @ new \<and>
                   (\<forall>c \<in> set new. analyzed_row keyword project c)"
        by blast
      with s2 show ?thesis by simp
    qed
    from step obtain new1 where n1: "citations_tbl s2 = citations_tbl s @ new1"
      "\<forall>c \<in> set new1. analyzed_row keyword project c" by blast
    from Cons.IH [OF rec] obtain new2 where n2: "citations_tbl s3 = citations_tbl s2 @ new2"
      "\<forall>c \<in> set new2. analyzed_row keyword project c" by blast
    from n1 n2 s' have "citations_tbl s' = citations_tbl s @ (new1 @ new2)" by simp
    moreover from n1(2) n2(2) have "\<forall>c \<in> set (new1 @ new2). analyzed_row keyword project c"
      by auto
    ultimately have "\<exists>new. citations_tbl s' = citations_tbl s @ new \<and>
                   (\<forall>c \<in> set new. analyzed_row keyword project c)"
      by blast
    with Cons.IH [OF rec] step s' show ?thesis by simp
  qed
qed

text \<open>
  Either outcome of \<open>trackKeyword\<close> leaves the other tables alone; the update of
  \<open>last_tracked_at\<close> fails exactly for a keyword identifier that is no UUID.
\<close>

lemma trackKeyword_frame:
  assumes "trackKeyword eng keyword project ps s = (out, s')"
  shows "(\<exists>new. citations_tbl s' = citations_tbl s @ new \<and>
            (\<forall>c \<in> set new. analyzed_row keyword project c)) \<and>
   (case out of
      Inl msg \<Rightarrow> \<not> is_uuid (kw_id keyword) \<and> keywords_tbl s' = keywords_tbl s
    | Inr results \<Rightarrow>
        keywords_tbl s' = map (\<lambda>k. if kw_id k = kw_id keyword
                                  then k\<lparr>last_tracked_at := Some (clock s')\<rparr> else k)
                            (keywords_tbl s)) \<and>
   projects_tbl s' = projects_tbl s \<and>
   tracking_jobs_tbl s' = tracking_jobs_tbl s \<and> alerts_tbl s' = alerts_tbl s \<and>
   next_uuid s' = next_uuid s"
proof -
  obtain rs s1 where tp: "trackPlatforms eng keyword project ps s = (rs, s1)"
    by (cases "trackPlatforms eng keyword project ps s")
  note fr = trackPlatforms_frame [OF tp]
  show ?thesis
  proof (cases "is_uuid (kw_id keyword)")
    case True
    with assms tp have "out = Inr rs"
      and "s' = s1\<lparr>keywords_tbl :=
                   map (\<lambda>k. if kw_id k = kw_id keyword then k\<lparr>last_tracked_at := Some (clock s1)\<rparr> else k)
                     (keywords_tbl s1)\<rparr>"
      by (auto simp: trackKeyword_def updateKeywordTrackingTime_def)
    with fr show ?thesis by simp
  next
    case False
    with assms tp have "out = Inl (invalid_uuid (kw_id keyword))" and "s' = s1"
      by (auto simp: trackKeyword_def updateKeywordTrackingTime_def)
    with fr False show ?thesis by simp
  qed
qed

lemma not_uuid_test: "\<not> is_uuid ''test''"
  by (simp add: is_uuid_def)

text \<open>
  C3. The quick test leaves every table as it was, for every engine, request and store.
  The engine is run for the mock keyword \<open>test\<close>; the \<open>citations\<close> table rejects each
  citation stored under that identifier, which is no UUID, so no citation row of the
  test run is ever persisted, and the update of \<open>last_tracked_at\<close> for the identifier
  \<open>test\<close> fails, so no keyword's \<open>last_tracked_at\<close> is modified; the handler ends
  with that error.
\<close>

theorem quick_test_leaves_store:
  "citations_tbl (snd (quick_test engine req s)) = citations_tbl s \<and>
   keywords_tbl (snd (quick_test engine req s)) = keywords_tbl s \<and>
   projects_tbl (snd (quick_test engine req s)) = projects_tbl s \<and>
   tracking_jobs_tbl (snd (quick_test engine req s)) = tracking_jobs_tbl s \<and>
   alerts_tbl (snd (quick_test engine req s)) = alerts_tbl s"
proof (cases "\<exists>kw eng. qt_keyword req = Some kw \<and> kw \<noteq> [] \<and> engine = Some eng")
  case False
  then have "snd (quick_test engine req s) = s"
    by (auto simp: quick_test_def split: option.splits)
  then show ?thesis by simp
next
  case True
  then obtain kw eng where kw: "qt_keyword req = Some kw" "kw \<noteq> []" and eng: "engine = Some eng"
    by blast
  define platformList where
    "platformList = (case qt_platforms req of Some ps \<Rightarrow> ps | None \<Rightarrow> [GEMINI, GOOGLE_AI_OVERVIEW])"
  define mockKeyword where
    "mockKeyword = \<lparr>kw_id = ''test'', kw_project_id = ''test'', keyword_text = kw,
                    kw_is_active = True, last_tracked_at = None\<rparr>"
  define mockProject where
    "mockProject = \<lparr>proj_id = ''test'', organization_id = ''test'',
                    primary_domain = (case qt_domain req of
                                        Some d \<Rightarrow> if d = [] then ''example.com'' else d
                                      | None \<Rightarrow> ''example.com''),
                    competitor_domains = []\<rparr>"
  obtain out s1 where tk: "trackKeyword eng mockKeyword mockProject platformList s = (out, s1)"
    by (cases "trackKeyword eng mockKeyword mockProject platformList s")
  from trackKeyword_frame [OF tk] obtain new where
    new: "citations_tbl s1 = citations_tbl s @ new"
      "\<forall>c \<in> set new. analyzed_row mockKeyword mockProject c"
    and rest: "projects_tbl s1 = projects_tbl s" "tracking_jobs_tbl s1 = tracking_jobs_tbl s"
      "alerts_tbl s1 = alerts_tbl s"
    and kws: "case out of
      Inl msg \<Rightarrow> \<not> is_uuid (kw_id mockKeyword) \<and> keywords_tbl s1 = keywords_tbl s
    | Inr results \<Rightarrow>
        keywords_tbl s1 = map (\<lambda>k. if kw_id k = kw_id mockKeyword
                                  then k\<lparr>last_tracked_at := Some (clock s1)\<rparr> else k)
                            (keywords_tbl s)"
    by blast
  have "new = []"
  proof (cases new)
    case (Cons c cs)
    with new(2) have "analyzed_row mockKeyword mockProject c" by simp
    then have "is_uuid (keyword_id c)" and "keyword_id c = kw_id mockKeyword"
      unfolding analyzed_row_def by blast+
    then have "is_uuid ''test''" by (simp add: mockKeyword_def)
    with not_uuid_test show ?thesis by simp
  qed simp
  with new have c1: "citations_tbl s1 = citations_tbl s" by simp
  from tk have "is_uuid ''test'' \<or> (\<exists>msg. out = Inl msg)"
    by (auto simp: trackKeyword_def updateKeywordTrackingTime_def mockKeyword_def
             split: prod.splits if_splits)
  with not_uuid_test obtain msg where out: "out = Inl msg" by blast
  with kws have k1: "keywords_tbl s1 = keywords_tbl s" by simp
  have "snd (quick_test engine req s) = s1"
    using kw eng tk out
    by (simp add: quick_test_def Let_def platformList_def mockKeyword_def mockProject_def)
  with c1 k1 rest show ?thesis by simp
qed

text \<open>
  A run with Gemini configured, in a store that holds a keyword and a citation: the
  provider is queried (the clock advances by its 120 ms), the handler ends with the UUID
  error, and the tables are those of the start.
\<close>

lemma quick_test_example:
  "fst (quick_test (Some ex_engine) ex_quick_test (ex_tracked_store [ex_citation_at 100 True (Some 1)]))
     = Inl (invalid_uuid ''test'', None) \<and>
   citations_tbl (snd (quick_test (Some ex_engine) ex_quick_test
                         (ex_tracked_store [ex_citation_at 100 True (Some 1)])))
     = [ex_citation_at 100 True (Some 1)] \<and>
   keywords_tbl (snd (quick_test (Some ex_engine) ex_quick_test
                        (ex_tracked_store [ex_citation_at 100 True (Some 1)])))
     = [ex_tracked_keyword] \<and>
   clock (snd (quick_test (Some ex_engine) ex_quick_test
                 (ex_tracked_store [ex_citation_at 100 True (Some 1)]))) = 420"
  by code_simp

subsection \<open>The worker's exception handler\<close>

lemma tracking_jobs_update_job:
  "tracking_jobs_tbl (update_job jid f s) =
   map (\<lambda>j. if job_id j = jid then f j else j) (tracking_jobs_tbl s)"
  by (simp add: update_job_def)

lemma processTrackingJob_try_throws:
  assumes "processTrackingJob_try engine job s = (s1, Some msg)"
  shows "tracking_jobs_tbl s1 =
         tracking_jobs_tbl (update_job (jobId job)
            (\<lambda>j. j\<lparr>status := PROCESSING, started_at := Some (clock s)\<rparr>) s)"
proof -
  let ?s1 = "update_job (jobId job) (\<lambda>j. j\<lparr>status := PROCESSING, started_at := Some (clock s)\<rparr>) s"
  show ?thesis
  proof (cases "keywordWithProject ?s1 (keywordId job)")
    case None
    with assms show ?thesis by (simp add: processTrackingJob_try_def Let_def)
  next
    case (Some kp)
    obtain k p where kp: "kp = (k, p)" by (cases kp)
    show ?thesis
    proof (cases engine)
      case None
      with assms Some kp show ?thesis by (simp add: processTrackingJob_try_def Let_def)
    next
      case eng: (Some eng)
      obtain out s2 where tk: "trackKeyword eng k p [jd_platform job] ?s1 = (out, s2)"
        by (cases "trackKeyword eng k p [jd_platform job] ?s1")
      from trackKeyword_frame [OF tk] have fr: "tracking_jobs_tbl s2 = tracking_jobs_tbl ?s1"
        by simp
      show ?thesis
      proof (cases out)
        case (Inl m)
        with assms Some kp eng tk have "s1 = s2"
          by (simp add: processTrackingJob_try_def Let_def)
        with fr show ?thesis by simp
      next
        case (Inr results)
        with assms Some kp eng tk show ?thesis
          by (simp add: processTrackingJob_try_def Let_def)
      qed
    qed
  qed
qed

lemma ex_orphan_run:
  "processTrackingJob None ex_orphan_data ex_store_orphan =
     (ex_store_orphan\<lparr>tracking_jobs_tbl :=
        [ex_orphan_job\<lparr>status := FAILED, started_at := Some 1000,
           error_message := Some ''Keyword not found'', retry_count := 1\<rparr>]\<rparr>,
      Some ''Keyword not found'')"
  by (simp add: processTrackingJob_def processTrackingJob_try_def processTrackingJob_catch_def
      update_job_def keywordWithProject_def ex_orphan_data_def ex_store_orphan_def ex_store_def
      ex_orphan_job_def ex_keyword_def Let_def)

text \<open>
  C4, as the code has it. When processing a tracking job raises an exception, the worker
  increments the persisted \<open>retry_count\<close> of the job by one, records the message and
  sets the status to \<open>failed\<close>, whatever the retry count is; the status \<open>retrying\<close>
  is never written and no maximum of retries is consulted.
\<close>

theorem processTrackingJob_exception:
  assumes "processTrackingJob engine job s = (s', Some msg)"
  shows "tracking_jobs_tbl s' =
     map (\<lambda>j. if job_id j = jobId job
              then j\<lparr>status := FAILED, started_at := Some (clock s), error_message := Some msg,
                     retry_count := retry_count j + 1\<rparr>
              else j) (tracking_jobs_tbl s)"
proof -
  from assms obtain s1 where t: "processTrackingJob_try engine job s = (s1, Some msg)"
    and s': "s' = processTrackingJob_catch (jobId job) msg s1"
    by (auto simp: processTrackingJob_def split: prod.splits option.splits)
  from processTrackingJob_try_throws [OF t] s'
  show ?thesis
    by (auto simp: processTrackingJob_catch_def tracking_jobs_update_job)
qed

theorem processTrackingJob_exception_witness:
  "snd (processTrackingJob None ex_orphan_data ex_store_orphan) = Some ''Keyword not found'' \<and>
   map status (tracking_jobs_tbl (fst (processTrackingJob None ex_orphan_data ex_store_orphan))) = [FAILED] \<and>
   map retry_count (tracking_jobs_tbl (fst (processTrackingJob None ex_orphan_data ex_store_orphan))) = [1]"
proof -
  have r: "processTrackingJob None ex_orphan_data ex_store_orphan =
     (fst (processTrackingJob None ex_orphan_data ex_store_orphan), Some ''Keyword not found'')"
    by (simp add: ex_orphan_run)
  from processTrackingJob_exception [OF r]
  have "tracking_jobs_tbl (fst (processTrackingJob None ex_orphan_data ex_store_orphan)) =
     map (\<lambda>j. if job_id j = jobId ex_orphan_data
              then j\<lparr>status := FAILED, started_at := Some (clock ex_store_orphan),
                     error_message := Some ''Keyword not found'',
                     retry_count := retry_count j + 1\<rparr>
              else j) (tracking_jobs_tbl ex_store_orphan)" .
  then have t: "tracking_jobs_tbl (fst (processTrackingJob None ex_orphan_data ex_store_orphan)) =
     [ex_orphan_job\<lparr>status := FAILED, started_at := Some 1000,
        error_message := Some ''Keyword not found'', retry_count := 1\<rparr>]"
    by (simp add: ex_orphan_data_def ex_store_orphan_def ex_orphan_job_def ex_store_def)
  have e: "snd (processTrackingJob None ex_orphan_data ex_store_orphan) = Some ''Keyword not found''"
    by (simp add: ex_orphan_run)
  from t e show ?thesis by simp
qed

text \<open>
  A job with no retry so far whose keyword is missing: the exception leaves it
  \<open>failed\<close> with retry count 1, below the maximum 3 of the claim, and not \<open>retrying\<close>.
\<close>

theorem failed_below_maxRetries_counterexample:
  "snd (processTrackingJob None ex_orphan_data ex_store_orphan) = Some ''Keyword not found'' \<and>
   map retry_count (tracking_jobs_tbl (fst (processTrackingJob None ex_orphan_data ex_store_orphan))) = [1] \<and>
   (1::nat) < 3 \<and>
   map status (tracking_jobs_tbl (fst (processTrackingJob None ex_orphan_data ex_store_orphan))) \<noteq> [RETRYING]"
  by (simp add: ex_orphan_run ex_orphan_job_def)

subsection \<open>Alerts of the worker\<close>

text \<open>
  Every alert the worker hands to \<open>createAlert\<close> has an empty organization, which is
  no UUID, so the \<open>alerts\<close> table rejects it and \<open>createAlert\<close> leaves the store as
  it was: the alert check of the worker never writes a row.
\<close>

lemma not_uuid_empty: "\<not> is_uuid []"
  by (simp add: is_uuid_def)

lemma checkForAlerts_alert_organization:
  "checkForAlerts_alert pid kid ktext p result s = Some a \<Longrightarrow> alert_organization_id a = []"
  by (auto simp: checkForAlerts_alert_def Let_def split: if_splits)

lemma checkForAlerts_stores_nothing:
  "checkForAlerts pid kid ktext p result s = s"
proof (cases "checkForAlerts_alert pid kid ktext p result s")
  case None
  then show ?thesis by (simp add: checkForAlerts_def)
next
  case (Some a)
  from checkForAlerts_alert_organization [OF Some] not_uuid_empty
  have "alert_insert_error a s \<noteq> None"
    by (simp add: alert_insert_error_def)
  with Some show ?thesis
    by (auto simp: checkForAlerts_def createAlert_def)
qed

text \<open>
  What the check attempts. When the previous citation the query returns and the citation
  of the current result both carry a position other than 0, a \<open>position_change\<close>
  alert is built if and only if the positions differ by at least 2, \<open>info\<close> when the
  current position is the smaller one and \<open>warning\<close> otherwise, with the percentage
  (previous - current) / previous * 100. After a successful attempt the stored citation
  is the newest row of its keyword and platform, so the row the query returns is the
  newest earlier one, and a \<open>lost_citation\<close> alert is built exactly when that row
  mentions the domain and the current citation does not.
\<close>

lemma find_Some_list_ex: "find P xs = Some x \<Longrightarrow> list_ex P xs"
  by (induction xs) (auto split: if_splits)

lemma analyzeResponse_position_mentioned:
  assumes "citation (analyzeResponse keyword project p ms now response) = Some c"
    and "citation_position c = Some b"
  shows "domain_mentioned c"
  using assms
  by (auto simp: analyzeResponse_def failed_result_def Let_def isDomainMentioned_def
           split: if_splits)

lemma position_change_attempt:
  assumes prev: "previousCitation s kid p = Some prev"
    and pa: "citation_position prev = Some a" and a: "a \<noteq> 0"
    and res: "result = analyzeResponse keyword project p ms now response"
    and cur: "citation result = Some cur"
    and cb: "citation_position cur = Some b" and b: "b \<noteq> 0"
  shows "if \<bar>a - b\<bar> \<ge> 2
         then \<exists>al. checkForAlerts_alert pid kid ktext p result s = Some al \<and>
                    alert_type al = POSITION_CHANGE \<and>
                    severity al = (if b < a then INFO else WARNING) \<and>
                    previous_value al = Some (int_to_string a) \<and>
                    current_value al = Some (int_to_string b) \<and>
                    change_percent al = Some (of_int (a - b) / of_int a * 100)
         else checkForAlerts_alert pid kid ktext p result s = None"
proof -
  from res cur cb have dm: "domain_mentioned cur"
    using analyzeResponse_position_mentioned by blast
  then have cm: "current_mentioned result"
    using cur by (simp add: current_mentioned_def)
  have cp: "current_position result = Some b"
    using cur cb by (simp add: current_position_def)
  have t1: "truthy_position (Option.bind (previousCitation s kid p) citation_position)"
    using prev pa a by (simp add: truthy_position_def)
  have t2: "truthy_position (current_position result)"
    using cp b by (simp add: truthy_position_def)
  show ?thesis
  proof (cases "\<bar>a - b\<bar> \<ge> 2")
    case True
    then show ?thesis
      using prev pa cm cp t1 t2
      by (simp add: checkForAlerts_alert_def Let_def)
  next
    case False
    then show ?thesis
      using prev pa cm cp t1 t2
      by (simp add: checkForAlerts_alert_def Let_def)
  qed
qed

lemma insort_key_snoc:
  "f a \<le> f x \<Longrightarrow> insort_key f a (ys @ [x]) = insort_key f a ys @ [x]"
  by (induction ys) auto

lemma sort_key_snoc:
  "\<forall>y \<in> set xs. f y \<le> f x \<Longrightarrow> sort_key f (xs @ [x]) = sort_key f xs @ [x]"
  by (induction xs) (auto simp: insort_key_snoc)

lemma previousCitation_after_store:
  assumes "storeCitation new s = Inr s'" "keyword_id new = kid" "platform new = p"
    and "\<forall>c \<in> set (citations_tbl s). keyword_id c = kid \<and> platform c = p \<longrightarrow> tracked_at c \<le> tracked_at new"
  shows "previousCitation s' kid p =
     (case rev (sort_key tracked_at
                  (filter (\<lambda>c. keyword_id c = kid \<and> platform c = p) (citations_tbl s))) of
        [] \<Rightarrow> None
      | r # _ \<Rightarrow> Some r)"
proof -
  let ?old = "filter (\<lambda>c. keyword_id c = kid \<and> platform c = p) (citations_tbl s)"
  from assms(4) have "\<forall>y \<in> set ?old. tracked_at y \<le> tracked_at new" by auto
  then have "sort_key tracked_at (?old @ [new]) = sort_key tracked_at ?old @ [new]"
    by (rule sort_key_snoc)
  moreover from assms(1) have "citations_tbl s' = citations_tbl s @ [new]"
    by (auto dest: storeCitation_Inr)
  ultimately show ?thesis
    using assms(2,3) by (simp add: previousCitation_def)
qed

lemma lost_citation_attempt_on_success:
  assumes "citation result = Some cur"
  shows "(\<exists>al. checkForAlerts_alert pid kid ktext p result s = Some al \<and>
               alert_type al = LOST_CITATION) \<longleftrightarrow>
         (\<exists>prev. previousCitation s kid p = Some prev \<and> domain_mentioned prev \<and>
                 \<not> domain_mentioned cur)"
  using assms
  by (auto simp: checkForAlerts_alert_def Let_def current_mentioned_def
           split: option.splits)

text \<open>
  C8, evaluated on the code, at the example of the claim. The stored citation of the
  keyword on Gemini has position 3 and the provider now cites the domain at position 1.
  The job completes and the new citation is stored with position 1; no alert row is
  written. The check builds the \<open>position_change\<close> alert (\<open>info\<close>, 200/3, which the
  column would keep as 66.67), but with the empty organization, and the rejected insert
  is caught and logged.
\<close>

theorem position_change_alert_not_stored:
  "snd (processTrackingJob (Some (ex_engine_at 1)) ex_job_data
          (ex_tracked_store [ex_citation_at 100 True (Some 3)])) = None \<and>
   map status (tracking_jobs_tbl (fst (processTrackingJob (Some (ex_engine_at 1)) ex_job_data
          (ex_tracked_store [ex_citation_at 100 True (Some 3)])))) = [COMPLETED] \<and>
   map tracked_at (citations_tbl (fst (processTrackingJob (Some (ex_engine_at 1)) ex_job_data
          (ex_tracked_store [ex_citation_at 100 True (Some 3)])))) = [100, 420] \<and>
   map citation_position (citations_tbl (fst (processTrackingJob (Some (ex_engine_at 1)) ex_job_data
          (ex_tracked_store [ex_citation_at 100 True (Some 3)])))) = [Some 3, Some 1] \<and>
   alerts_tbl (fst (processTrackingJob (Some (ex_engine_at 1)) ex_job_data
          (ex_tracked_store [ex_citation_at 100 True (Some 3)]))) = []"
  by code_simp

lemma position_change_alert_attempted:
  "map_option (\<lambda>a. (alert_type a, severity a, change_percent a, alert_organization_id a))
     (checkForAlerts_alert ex_pid ex_kid ''best crm'' GEMINI
        (analyzeResponse ex_tracked_keyword ex_tracked_project GEMINI 120 420 (ex_response_at 1))
        (fst (processTrackingJob (Some (ex_engine_at 1)) ex_job_data
                (ex_tracked_store [ex_citation_at 100 True (Some 3)]))))
   = Some (POSITION_CHANGE, INFO, Some (200 / 3), []) \<and>
   decimal2 (200 / 3) = 6667 / 100"
  by code_simp

text \<open>
  A position of 0 is not null, but the check tests the positions for truth: from
  position 3 to position 0 no alert is built.
\<close>

lemma position_zero_not_attempted:
  "map citation_position (citations_tbl (fst (processTrackingJob (Some (ex_engine_at 0)) ex_job_data
          (ex_tracked_store [ex_citation_at 100 True (Some 3)])))) = [Some 3, Some 0] \<and>
   checkForAlerts_alert ex_pid ex_kid ''best crm'' GEMINI
        (analyzeResponse ex_tracked_keyword ex_tracked_project GEMINI 120 420 (ex_response_at 0))
        (fst (processTrackingJob (Some (ex_engine_at 0)) ex_job_data
                (ex_tracked_store [ex_citation_at 100 True (Some 3)])))
   = None"
  by code_simp

text \<open>
  C7, evaluated on the code. The stored citation of the keyword on Gemini mentions the
  domain at position 1 and the provider now cites only a competitor. The job completes
  and the new citation is stored with \<open>domain_mentioned\<close> false; no alert row is
  written. The check builds the \<open>lost_citation\<close> alert (\<open>warning\<close>, previous value
  1), but with the empty organization, and the rejected insert is caught and logged.
\<close>

theorem lost_citation_alert_not_stored:
  "snd (processTrackingJob (Some ex_engine_other) ex_job_data
          (ex_tracked_store [ex_citation_at 100 True (Some 1)])) = None \<and>
   map status (tracking_jobs_tbl (fst (processTrackingJob (Some ex_engine_other) ex_job_data
          (ex_tracked_store [ex_citation_at 100 True (Some 1)])))) = [COMPLETED] \<and>
   map tracked_at (citations_tbl (fst (processTrackingJob (Some ex_engine_other) ex_job_data
          (ex_tracked_store [ex_citation_at 100 True (Some 1)])))) = [100, 420] \<and>
   map domain_mentioned (citations_tbl (fst (processTrackingJob (Some ex_engine_other) ex_job_data
          (ex_tracked_store [ex_citation_at 100 True (Some 1)])))) = [True, False] \<and>
   alerts_tbl (fst (processTrackingJob (Some ex_engine_other) ex_job_data
          (ex_tracked_store [ex_citation_at 100 True (Some 1)]))) = []"
  by code_simp

lemma lost_citation_alert_attempted:
  "map_option (\<lambda>a. (alert_type a, severity a, previous_value a, alert_organization_id a))
     (checkForAlerts_alert ex_pid ex_kid ''best crm'' GEMINI
        (analyzeResponse ex_tracked_keyword ex_tracked_project GEMINI 120 420 ex_response_other)
        (fst (processTrackingJob (Some ex_engine_other) ex_job_data
                (ex_tracked_store [ex_citation_at 100 True (Some 1)]))))
   = Some (LOST_CITATION, WARNING, Some ''1'', [])"
  by code_simp

text \<open>
  The check also runs after an attempt that failed and stored nothing. With Gemini not
  configured and two stored citations, it skips the newest stored row as if it were the
  current one and builds a \<open>lost_citation\<close> alert from the older row (previous value
  1, where the newest row has position 4).
\<close>

lemma failed_attempt_checks_older_row:
  "snd (processTrackingJob (Some ex_engine_unconfigured) ex_job_data
          (ex_tracked_store [ex_citation_at 100 True (Some 1), ex_citation_at 200 True (Some 4)])) = None \<and>
   map (map_option success \<circ> result_data)
     (tracking_jobs_tbl (fst (processTrackingJob (Some ex_engine_unconfigured) ex_job_data
          (ex_tracked_store [ex_citation_at 100 True (Some 1), ex_citation_at 200 True (Some 4)]))))
     = [Some False] \<and>
   citations_tbl (fst (processTrackingJob (Some ex_engine_unconfigured) ex_job_data
          (ex_tracked_store [ex_citation_at 100 True (Some 1), ex_citation_at 200 True (Some 4)])))
     = [ex_citation_at 100 True (Some 1), ex_citation_at 200 True (Some 4)] \<and>
   map_option (\<lambda>a. (alert_type a, previous_value a))
     (checkForAlerts_alert ex_pid ex_kid ''best crm'' GEMINI
        (failed_result ''Gemini not configured'' GEMINI 0)
        (fst (processTrackingJob (Some ex_engine_unconfigured) ex_job_data
          (ex_tracked_store [ex_citation_at 100 True (Some 1), ex_citation_at 200 True (Some 4)]))))
     = Some (LOST_CITATION, Some ''1'')"
  by code_simp

end
